theory Spec2Isabelle
  imports Complex_Main
begin

section \<open>Data model of the journey module\<close>

text \<open>
  The ride-hailing backend keeps three collections in a document store: users, driver
  profiles and rides (journeys). An ObjectId is compared through its hexadecimal string
  (\<^verbatim>\<open>a.toString() === b.toString()\<close>), so ids are strings here. The numbers that the
  service stores and compares (fares, distances, durations) are real numbers; dates
  are milliseconds. The service computes no number but the estimated fare, in
  floating-point arithmetic that is not modelled here: the result of that computation
  is an argument of \<open>createJourney\<close> below.
\<close>

type_synonym objectId = string
type_synonym date = nat

text \<open>The enumerations of the Journey schema (journey.model.js).\<close>

datatype journey_status = REQUESTED | ACCEPTED | ARRIVED | STARTED | COMPLETED | CANCELLED

datatype vehicle_type = CAR | BIKE | AUTO | E_RICKSHAW | ELECTRIC_SCOOTER

datatype payment_status = PAYMENT_PENDING | PAYMENT_COMPLETED | PAYMENT_FAILED

datatype cancelled_by = RIDER | DRIVER

text \<open>
  A thrown value: the service throws plain \<^verbatim>\<open>new Error(message)\<close> objects; a failed
  \<^verbatim>\<open>save()\<close> rejects with the store's validation error, which lists the failing paths.
\<close>

datatype error = Error string | ValidationError "string list"

record place =
  address :: string
  coordinates :: "real \<times> real"

record journey =
  riderId :: objectId
  driverId :: "objectId option"
  status :: journey_status
  vehicleType :: vehicle_type
  pickup :: place
  dropoff :: place
  estimatedFare :: real
  actualFare :: "real option"
  distance :: "real option"
  duration :: "real option"
  paymentMethod :: string
  paymentStatus :: payment_status
  requestedAt :: date
  acceptedAt :: "date option"
  arrivedAt :: "date option"
  startedAt :: "date option"
  completedAt :: "date option"
  cancelledAt :: "date option"
  cancellationReason :: "string option"
  cancelledBy :: "cancelled_by option"

record user =
  userName :: string
  userEmail :: string
  userPhone :: string

text \<open>
  The fields of a driver profile that the journey service reads or writes:
  \<^verbatim>\<open>status.isOnline\<close>, \<^verbatim>\<open>status.isVerified\<close>, \<^verbatim>\<open>vehicleInfo.vehicleType\<close> and
  \<^verbatim>\<open>stats.totalRides\<close>.
\<close>

record driver =
  isOnline :: bool
  isVerified :: bool
  driverVehicleType :: vehicle_type
  totalRides :: nat

record db =
  users :: "objectId \<rightharpoonup> user"
  drivers :: "objectId \<rightharpoonup> driver"
  rides :: "objectId \<rightharpoonup> journey"

section \<open>Schema validation and persistence\<close>

text \<open>
  \<^verbatim>\<open>String.prototype.trim\<close>, which the schema option \<^verbatim>\<open>trim: true\<close> applies when a
  string field is assigned. A \<^typ>\<open>char\<close> stands for a code unit below 256; the white
  space among those is tab, line feed, vertical tab, form feed, carriage return,
  space and the no-break space.
\<close>

definition isWhiteSpace :: "char \<Rightarrow> bool" where
  "isWhiteSpace c =
     (c \<in> set [CHR 0x09, CHR 0x0A, CHR 0x0B, CHR 0x0C, CHR 0x0D, CHR 0x20, CHR 0xA0])"

definition trim :: "string \<Rightarrow> string" where
  "trim s = rev (dropWhile isWhiteSpace (rev (dropWhile isWhiteSpace s)))"

text \<open>The \<^verbatim>\<open>enum\<close> of the schema path \<^verbatim>\<open>paymentMethod\<close> (journey.model.js).\<close>

definition paymentMethod_enum :: "string list" where
  "paymentMethod_enum = [''CASH'', ''CARD'', ''UPI'', ''WALLET'']"

text \<open>The validator \<^verbatim>\<open>min: [0, ...]\<close> of an optional number: \<^verbatim>\<open>null\<close> passes.\<close>

definition minZero :: "string \<Rightarrow> real option \<Rightarrow> string list" where
  "minZero path v = (case v of None \<Rightarrow> [] | Some x \<Rightarrow> if x < 0 then [path] else [])"

text \<open>
  The validators of the Journey schema that the types above do not already enforce,
  in schema order; the result lists the failing paths. An empty string fails
  \<^verbatim>\<open>required\<close>.
\<close>

definition validateJourney :: "journey \<Rightarrow> string list" where
  "validateJourney j =
     (if address (pickup j) = [] then [''pickup.address''] else []) @
     (if address (dropoff j) = [] then [''dropoff.address''] else []) @
     (if estimatedFare j < 0 then [''estimatedFare''] else []) @
     minZero ''actualFare'' (actualFare j) @
     minZero ''distance'' (distance j) @
     minZero ''duration'' (duration j) @
     (if paymentMethod j \<in> set paymentMethod_enum then [] else [''paymentMethod''])"

text \<open>
  \<^verbatim>\<open>await journey.save()\<close>: the document is validated and, when valid, written under its
  id; an invalid document is rejected and nothing is written.
\<close>

definition journey_save :: "db \<Rightarrow> objectId \<Rightarrow> journey \<Rightarrow> (error + journey) \<times> db" where
  "journey_save d jid j =
     (case validateJourney j of
        [] \<Rightarrow> (Inr j, d\<lparr>rides := (rides d)(jid \<mapsto> j)\<rparr>)
      | p # ps \<Rightarrow> (Inl (ValidationError (p # ps)), d))"

section \<open>Request schemas (journey.validation.js)\<close>

record journeyData =
  pickupAddress :: string
  pickupCoordinates :: "real \<times> real"
  dropoffAddress :: string
  dropoffCoordinates :: "real \<times> real"
  dataVehicleType :: vehicle_type
  dataPaymentMethod :: string
  numberOfPassengers :: "real option"
  specialRequests :: "string option"
  luggage :: "bool option"

text \<open>The \<^verbatim>\<open>z.enum\<close> of \<^verbatim>\<open>paymentMethod\<close> in \<^verbatim>\<open>createJourneySchema\<close>.\<close>

definition createJourneySchema_paymentMethod :: "string list" where
  "createJourneySchema_paymentMethod =
     [''CASH'', ''DIGITAL_WALLET'', ''DEBIT_CARD'', ''CREDIT_CARD'', ''UPI'']"

text \<open>
  \<^verbatim>\<open>createJourneySchema\<close> on a request body whose coordinates are pairs of numbers and
  whose vehicle type is one of the five of the enum (both by type here).
\<close>

definition createJourneySchema :: "journeyData \<Rightarrow> bool" where
  "createJourneySchema b =
     (5 \<le> length (pickupAddress b) \<and> length (pickupAddress b) \<le> 200 \<and>
      5 \<le> length (dropoffAddress b) \<and> length (dropoffAddress b) \<le> 200 \<and>
      dataPaymentMethod b \<in> set createJourneySchema_paymentMethod \<and>
      (case numberOfPassengers b of None \<Rightarrow> True | Some n \<Rightarrow> 1 \<le> n \<and> n \<le> 5) \<and>
      (case specialRequests b of None \<Rightarrow> True | Some r \<Rightarrow> length r \<le> 500))"

text \<open>\<^verbatim>\<open>updateJourneyStatusSchema\<close>: the body's status is \<^verbatim>\<open>z.enum(['ARRIVED', 'STARTED'])\<close>.\<close>

definition updateJourneyStatusSchema :: "string \<Rightarrow> journey_status option" where
  "updateJourneyStatusSchema s =
     (if s = ''ARRIVED'' then Some ARRIVED
      else if s = ''STARTED'' then Some STARTED
      else None)"

section \<open>Journey model methods (journey.model.js)\<close>

definition canBeCancelled :: "journey \<Rightarrow> bool" where
  "canBeCancelled j = (status j \<in> set [REQUESTED, ACCEPTED, ARRIVED])"

fun validTransitions :: "journey_status \<Rightarrow> journey_status list" where
  "validTransitions REQUESTED = [ACCEPTED, CANCELLED]"
| "validTransitions ACCEPTED = [ARRIVED, CANCELLED]"
| "validTransitions ARRIVED = [STARTED, CANCELLED]"
| "validTransitions STARTED = [COMPLETED, CANCELLED]"
| "validTransitions COMPLETED = []"
| "validTransitions CANCELLED = []"

definition isValidStatusTransition :: "journey \<Rightarrow> journey_status \<Rightarrow> bool" where
  "isValidStatusTransition j newStatus = (newStatus \<in> set (validTransitions (status j)))"

fun status_name :: "journey_status \<Rightarrow> string" where
  "status_name REQUESTED = ''REQUESTED''"
| "status_name ACCEPTED = ''ACCEPTED''"
| "status_name ARRIVED = ''ARRIVED''"
| "status_name STARTED = ''STARTED''"
| "status_name COMPLETED = ''COMPLETED''"
| "status_name CANCELLED = ''CANCELLED''"

section \<open>Journey service (journey.service.js)\<close>

text \<open>
  Every operation takes the store and returns what the call returns or throws, together
  with the store it leaves behind. \<^verbatim>\<open>new Date()\<close> is the argument \<open>now\<close>, and the id of
  a new document the argument \<open>newId\<close>. The calls to \<^verbatim>\<open>populate\<close> and
  \<^verbatim>\<open>formatJourneyResponse\<close> that end an operation only shape the response from the
  saved document and the users it refers to, and write nothing; an operation returns
  the saved document here.
\<close>

text \<open>
  \<^verbatim>\<open>createJourney\<close>. The argument \<open>fare\<close> is what \<^verbatim>\<open>calculateEstimatedFare\<close> returned for
  the coordinates and the vehicle type of the request: a number, or \<open>None\<close> when it
  is \<^verbatim>\<open>NaN\<close>. A \<^verbatim>\<open>NaN\<close> cannot be cast to the schema's Number, and \<^verbatim>\<open>save()\<close> then rejects
  the document, listing \<^verbatim>\<open>estimatedFare\<close> with the paths whose validators fail.
\<close>

definition createJourney ::
  "db \<Rightarrow> objectId \<Rightarrow> journeyData \<Rightarrow> real option \<Rightarrow> objectId \<Rightarrow> date
     \<Rightarrow> (error + journey) \<times> db" where
  "createJourney d rider journeyData fare newId now =
     (case users d rider of
        None \<Rightarrow> (Inl (Error ''Rider not found''), d)
      | Some u \<Rightarrow>
          (let j = (\<lambda>f. \<lparr>riderId = rider,
                    driverId = None,
                    status = REQUESTED,
                    vehicleType = dataVehicleType journeyData,
                    pickup = \<lparr>address = trim (pickupAddress journeyData),
                              coordinates = pickupCoordinates journeyData\<rparr>,
                    dropoff = \<lparr>address = trim (dropoffAddress journeyData),
                               coordinates = dropoffCoordinates journeyData\<rparr>,
                    estimatedFare = f,
                    actualFare = None,
                    distance = None,
                    duration = None,
                    paymentMethod = dataPaymentMethod journeyData,
                    paymentStatus = PAYMENT_PENDING,
                    requestedAt = now,
                    acceptedAt = None,
                    arrivedAt = None,
                    startedAt = None,
                    completedAt = None,
                    cancelledAt = None,
                    cancellationReason = None,
                    cancelledBy = None\<rparr>)
           in case fare of
                Some f \<Rightarrow> journey_save d newId (j f)
              | None \<Rightarrow> (Inl (ValidationError (''estimatedFare'' # validateJourney (j 0))), d)))"

text \<open>
  \<^verbatim>\<open>acceptJourney\<close> up to its \<^verbatim>\<open>await journey.save()\<close>: the driver and the journey are
  read and checked, and the document held in memory is assigned its driver.
\<close>

definition acceptJourney_read :: "db \<Rightarrow> objectId \<Rightarrow> objectId \<Rightarrow> date \<Rightarrow> error + journey" where
  "acceptJourney_read d jid did now =
     (case drivers d did of
        None \<Rightarrow> Inl (Error ''Driver not found'')
      | Some drv \<Rightarrow>
          if \<not> isOnline drv then Inl (Error ''Driver must be online to accept journeys'')
          else if \<not> isVerified drv then Inl (Error ''Driver must be verified to accept journeys'')
          else (case rides d jid of
                  None \<Rightarrow> Inl (Error ''Journey not found'')
                | Some j \<Rightarrow>
                    if status j \<noteq> REQUESTED then Inl (Error ''Journey is no longer available'')
                    else if vehicleType j \<noteq> driverVehicleType drv
                      then Inl (Error ''Vehicle type does not match journey request'')
                    else Inr (j\<lparr>driverId := Some did, status := ACCEPTED,
                                acceptedAt := Some now\<rparr>)))"

definition acceptJourney :: "db \<Rightarrow> objectId \<Rightarrow> objectId \<Rightarrow> date \<Rightarrow> (error + journey) \<times> db" where
  "acceptJourney d jid did now =
     (case acceptJourney_read d jid did now of
        Inl e \<Rightarrow> (Inl e, d)
      | Inr j \<Rightarrow> journey_save d jid j)"

definition updateJourneyStatus ::
  "db \<Rightarrow> objectId \<Rightarrow> objectId \<Rightarrow> journey_status \<Rightarrow> date \<Rightarrow> (error + journey) \<times> db" where
  "updateJourneyStatus d jid did newStatus now =
     (case rides d jid of
        None \<Rightarrow> (Inl (Error ''Journey not found''), d)
      | Some j \<Rightarrow>
          if (case driverId j of None \<Rightarrow> True | Some a \<Rightarrow> a \<noteq> did)
            then (Inl (Error ''You are not assigned to this journey''), d)
          else if \<not> isValidStatusTransition j newStatus
            then (Inl (Error (''Cannot transition from '' @ status_name (status j) @
                              '' to '' @ status_name newStatus)), d)
          else (let j1 = j\<lparr>status := newStatus\<rparr>;
                    j2 = (if newStatus = ARRIVED then j1\<lparr>arrivedAt := Some now\<rparr>
                          else if newStatus = STARTED then j1\<lparr>startedAt := Some now\<rparr>
                          else j1)
                in journey_save d jid j2))"

record completionData =
  dataActualFare :: real
  dataDistance :: real
  dataDuration :: real

definition completeJourney ::
  "db \<Rightarrow> objectId \<Rightarrow> objectId \<Rightarrow> completionData \<Rightarrow> date \<Rightarrow> (error + journey) \<times> db" where
  "completeJourney d jid did completion now =
     (case rides d jid of
        None \<Rightarrow> (Inl (Error ''Journey not found''), d)
      | Some j \<Rightarrow>
          if (case driverId j of None \<Rightarrow> True | Some a \<Rightarrow> a \<noteq> did)
            then (Inl (Error ''You are not assigned to this journey''), d)
          else if status j \<noteq> STARTED
            then (Inl (Error ''Journey must be started before completion''), d)
          else (case journey_save d jid
                       (j\<lparr>status := COMPLETED,
                          completedAt := Some now,
                          actualFare := Some (dataActualFare completion),
                          distance := Some (dataDistance completion),
                          duration := Some (dataDuration completion),
                          paymentStatus := PAYMENT_COMPLETED\<rparr>) of
                  (Inl e, d1) \<Rightarrow> (Inl e, d1)
                | (Inr j1, d1) \<Rightarrow>
                    (Inr j1,
                     (case drivers d1 did of
                        None \<Rightarrow> d1
                      | Some drv \<Rightarrow>
                          d1\<lparr>drivers := (drivers d1)(did \<mapsto>
                                 drv\<lparr>totalRides := totalRides drv + 1\<rparr>)\<rparr>))))"

definition cancelJourney ::
  "db \<Rightarrow> objectId \<Rightarrow> objectId \<Rightarrow> string \<Rightarrow> cancelled_by \<Rightarrow> date \<Rightarrow> (error + journey) \<times> db" where
  "cancelJourney d jid userId reason by_whom now =
     (case rides d jid of
        None \<Rightarrow> (Inl (Error ''Journey not found''), d)
      | Some j \<Rightarrow>
          (let isRider = (riderId j = userId);
               isDriver = (case driverId j of None \<Rightarrow> False | Some a \<Rightarrow> a = userId)
           in if \<not> isRider \<and> \<not> isDriver
                then (Inl (Error ''You are not authorized to cancel this journey''), d)
              else if \<not> canBeCancelled j
                then (Inl (Error ''Journey cannot be cancelled in current status''), d)
              else journey_save d jid
                     (j\<lparr>status := CANCELLED,
                        cancelledAt := Some now,
                        cancellationReason := Some (trim reason),
                        cancelledBy := Some by_whom\<rparr>)))"

text \<open>\<^verbatim>\<open>journey.actualFare || journey.estimatedFare\<close>: \<^verbatim>\<open>null\<close> and \<open>0\<close> are falsy.\<close>

definition settlementAmount :: "journey \<Rightarrow> real" where
  "settlementAmount j =
     (case actualFare j of
        None \<Rightarrow> estimatedFare j
      | Some f \<Rightarrow> if f = 0 then estimatedFare j else f)"

text \<open>
  The QR image is rendered by an external library from the JSON payload; the payload
  itself stands for the image.
\<close>

record paymentQR =
  qrJourneyId :: objectId
  qrAmount :: real
  qrPaymentMethod :: string
  qrCode :: "objectId \<times> real \<times> string \<times> date"

definition generatePaymentQR :: "db \<Rightarrow> objectId \<Rightarrow> objectId \<Rightarrow> date \<Rightarrow> error + paymentQR" where
  "generatePaymentQR d jid rider now =
     (case rides d jid of
        None \<Rightarrow> Inl (Error ''Journey not found'')
      | Some j \<Rightarrow>
          if riderId j \<noteq> rider
            then Inl (Error ''You are not authorized to generate payment for this journey'')
          else if status j \<noteq> COMPLETED
            then Inl (Error ''Payment QR only available for completed journeys'')
          else if paymentStatus j = PAYMENT_COMPLETED
            then Inl (Error ''Payment has already been completed'')
          else (let amount = settlementAmount j
                in Inr \<lparr>qrJourneyId = jid, qrAmount = amount,
                        qrPaymentMethod = paymentMethod j,
                        qrCode = (jid, amount, paymentMethod j, now)\<rparr>))"

record paymentConfirmation =
  alreadyPaid :: bool
  journeyId :: objectId
  amount :: "real option"
  confirmedPaymentMethod :: "string option"

definition confirmPayment ::
  "db \<Rightarrow> objectId \<Rightarrow> objectId \<Rightarrow> (error + paymentConfirmation) \<times> db" where
  "confirmPayment d jid rider =
     (case rides d jid of
        None \<Rightarrow> (Inl (Error ''Journey not found''), d)
      | Some j \<Rightarrow>
          if riderId j \<noteq> rider
            then (Inl (Error ''You are not authorized to confirm payment for this journey''), d)
          else if status j \<noteq> COMPLETED
            then (Inl (Error ''Can only confirm payment for completed journeys''), d)
          else if paymentStatus j = PAYMENT_COMPLETED
            then (Inr \<lparr>alreadyPaid = True, journeyId = jid, amount = None,
                       confirmedPaymentMethod = None\<rparr>, d)
          else (case journey_save d jid (j\<lparr>paymentStatus := PAYMENT_COMPLETED\<rparr>) of
                  (Inl e, d1) \<Rightarrow> (Inl e, d1)
                | (Inr j1, d1) \<Rightarrow>
                    (Inr \<lparr>alreadyPaid = False, journeyId = jid,
                          amount = Some (settlementAmount j1),
                          confirmedPaymentMethod = Some (paymentMethod j1)\<rparr>, d1)))"

text \<open>
  Modelled from the spec: the \<^verbatim>\<open>validate\<close> middleware of the route
  \<^verbatim>\<open>PATCH /:journeyId/status\<close> (common/middleware/auth.validate.js) is not among the
  sources; following the spec, the request schema is applied before the core logic runs
  and a body it rejects never reaches the service. The controller then hands the
  body's status to \<^verbatim>\<open>journeyService.updateJourneyStatus\<close>.
\<close>

definition patchJourneyStatus ::
  "db \<Rightarrow> objectId \<Rightarrow> objectId \<Rightarrow> string \<Rightarrow> date \<Rightarrow> (error + journey) \<times> db" where
  "patchJourneyStatus d jid did bodyStatus now =
     (case updateJourneyStatusSchema bodyStatus of
        None \<Rightarrow> (Inl (ValidationError [''status'']), d)
      | Some newStatus \<Rightarrow> updateJourneyStatus d jid did newStatus now)"

text \<open>
  Two requests to accept the same journey, each an \<^verbatim>\<open>async\<close> call that yields at its
  \<^verbatim>\<open>await\<close>s: both run up to their \<^verbatim>\<open>await journey.save()\<close> before either save is
  applied, then the saves are applied in turn.
\<close>

definition acceptJourney_interleaved ::
  "db \<Rightarrow> objectId \<Rightarrow> objectId \<Rightarrow> date \<Rightarrow> objectId \<Rightarrow> date
     \<Rightarrow> (error + journey) \<times> (error + journey) \<times> db" where
  "acceptJourney_interleaved d jid did1 now1 did2 now2 =
     (let read1 = acceptJourney_read d jid did1 now1;
          read2 = acceptJourney_read d jid did2 now2;
          (result1, d1) = (case read1 of Inl e \<Rightarrow> (Inl e, d) | Inr j \<Rightarrow> journey_save d jid j);
          (result2, d2) = (case read2 of Inl e \<Rightarrow> (Inl e, d1) | Inr j \<Rightarrow> journey_save d1 jid j)
      in (result1, result2, d2))"

text \<open>
  \<^verbatim>\<open>cancelJourney\<close> up to its \<^verbatim>\<open>await journey.save()\<close>: the journey is read and checked,
  and the document held in memory is marked cancelled.
\<close>

definition cancelJourney_read ::
  "db \<Rightarrow> objectId \<Rightarrow> objectId \<Rightarrow> string \<Rightarrow> cancelled_by \<Rightarrow> date \<Rightarrow> error + journey" where
  "cancelJourney_read d jid userId reason by_whom now =
     (case rides d jid of
        None \<Rightarrow> Inl (Error ''Journey not found'')
      | Some j \<Rightarrow>
          (let isRider = (riderId j = userId);
               isDriver = (case driverId j of None \<Rightarrow> False | Some a \<Rightarrow> a = userId)
           in if \<not> isRider \<and> \<not> isDriver
                then Inl (Error ''You are not authorized to cancel this journey'')
              else if \<not> canBeCancelled j
                then Inl (Error ''Journey cannot be cancelled in current status'')
              else Inr (j\<lparr>status := CANCELLED,
                          cancelledAt := Some now,
                          cancellationReason := Some (trim reason),
                          cancelledBy := Some by_whom\<rparr>)))"

text \<open>
  A rider's request to cancel a journey and a driver's request to accept it, each an
  \<^verbatim>\<open>async\<close> call that yields at its \<^verbatim>\<open>await\<close>s: both run up to their
  \<^verbatim>\<open>await journey.save()\<close> before either save is applied, then the cancel is saved and
  after it the accept. The result gives what each call returns and the store after
  each save. \<open>journey_save\<close> writes the document that its call holds; the store's
  update sets the fields that the call has assigned, which for both calls include the
  status, and of the stored journey only the status is read below.
\<close>

definition cancelJourney_acceptJourney_interleaved ::
  "db \<Rightarrow> objectId \<Rightarrow> objectId \<Rightarrow> string \<Rightarrow> cancelled_by \<Rightarrow> date \<Rightarrow> objectId \<Rightarrow> date
     \<Rightarrow> (error + journey) \<times> db \<times> (error + journey) \<times> db" where
  "cancelJourney_acceptJourney_interleaved d jid userId reason by_whom now1 did now2 =
     (let read1 = cancelJourney_read d jid userId reason by_whom now1;
          read2 = acceptJourney_read d jid did now2;
          (result1, d1) = (case read1 of Inl e \<Rightarrow> (Inl e, d) | Inr j \<Rightarrow> journey_save d jid j);
          (result2, d2) = (case read2 of Inl e \<Rightarrow> (Inl e, d1) | Inr j \<Rightarrow> journey_save d1 jid j)
      in (result1, d1, result2, d2))"

text \<open>The operations of the workflow engine that write a journey's status.\<close>

datatype operation =
    AcceptJourney objectId objectId
  | UpdateJourneyStatus objectId objectId journey_status
  | CompleteJourney objectId objectId completionData
  | CancelJourney objectId objectId string cancelled_by

fun run :: "db \<Rightarrow> operation \<Rightarrow> date \<Rightarrow> (error + journey) \<times> db" where
  "run d (AcceptJourney jid did) now = acceptJourney d jid did now"
| "run d (UpdateJourneyStatus jid did newStatus) now = updateJourneyStatus d jid did newStatus now"
| "run d (CompleteJourney jid did completion) now = completeJourney d jid did completion now"
| "run d (CancelJourney jid userId reason by_whom) now = cancelJourney d jid userId reason by_whom now"

section \<open>Event publisher (config/kafka.js)\<close>

text \<open>What an \<^verbatim>\<open>async\<close> function or a call does: it returns a value or it throws.\<close>

datatype 'a outcome = Returned 'a | Thrown string

text \<open>
  The module keeps the client and the producer in the variables \<^verbatim>\<open>kafka\<close> and
  \<^verbatim>\<open>producer\<close> (\<^verbatim>\<open>null\<close> until set). What the broker client does on a call is outside the
  program: \<open>broker\<close> says whether \<^verbatim>\<open>new Kafka\<close> throws, whether \<^verbatim>\<open>connect\<close> rejects, and
  what \<^verbatim>\<open>send\<close> does (it returns the broker's answer or throws an error with a
  message). The calls that reach the broker are recorded in \<open>brokerCalls\<close>.
\<close>

record env =
  KAFKA_ENABLED :: bool

record broker =
  constructorError :: "string option"
  connectError :: "string option"
  sendAnswer :: "string outcome"

datatype broker_call = Connect | Send string "string option" string date

record kafka_state =
  kafka :: bool
  producer :: bool
  brokerCalls :: "broker_call list"

record publishResult =
  success :: bool
  disabled :: "bool option"
  sendResult :: "string option"
  publishError :: "string option"

definition initKafka :: "env \<Rightarrow> broker \<Rightarrow> kafka_state \<Rightarrow> kafka_state" where
  "initKafka e b ks =
     (if \<not> KAFKA_ENABLED e then ks
      else (case constructorError b of
              Some msg \<Rightarrow> ks
            | None \<Rightarrow> ks\<lparr>kafka := True\<rparr>))"

text \<open>
  \<^verbatim>\<open>getProducer\<close> returns the producer or \<^verbatim>\<open>null\<close> (here: whether it returned one). With
  no client, \<^verbatim>\<open>kafka.producer\<close> throws inside the \<^verbatim>\<open>try\<close> and \<^verbatim>\<open>null\<close> is returned. The
  variable \<^verbatim>\<open>producer\<close> is assigned before \<^verbatim>\<open>connect\<close> is awaited.
\<close>

definition getProducer :: "env \<Rightarrow> broker \<Rightarrow> kafka_state \<Rightarrow> bool \<times> kafka_state" where
  "getProducer e b ks =
     (if \<not> KAFKA_ENABLED e then (False, ks)
      else if producer ks then (True, ks)
      else (let ks1 = (if \<not> kafka ks then initKafka e b ks else ks)
            in if \<not> kafka ks1 then (False, ks1)
               else (let ks2 = ks1\<lparr>producer := True,
                                   brokerCalls := brokerCalls ks1 @ [Connect]\<rparr>
                     in case connectError b of
                          Some msg \<Rightarrow> (False, ks2)
                        | None \<Rightarrow> (True, ks2))))"

text \<open>
  The body of the \<^verbatim>\<open>try\<close> block of \<^verbatim>\<open>publishMessage\<close>, which returns the broker's
  answer or throws. \<^verbatim>\<open>JSON.stringify\<close> is the argument \<open>stringify\<close> (it throws on a value
  it cannot serialise); the key is a string or \<^verbatim>\<open>null\<close>, and the empty string is falsy.
\<close>

definition publishMessage_try ::
  "env \<Rightarrow> broker \<Rightarrow> ('m \<Rightarrow> string outcome) \<Rightarrow> kafka_state \<Rightarrow> string \<Rightarrow> 'm \<Rightarrow> string option
     \<Rightarrow> date \<Rightarrow> string outcome \<times> kafka_state" where
  "publishMessage_try e b stringify ks topic message key now =
     (let (prod, ks1) = getProducer e b ks
      in if \<not> prod then (Thrown ''Producer not available'', ks1)
         else (let k = (case key of None \<Rightarrow> None | Some s \<Rightarrow> if s = [] then None else Some s)
               in case stringify message of
                    Thrown msg \<Rightarrow> (Thrown msg, ks1)
                  | Returned v \<Rightarrow>
                      (sendAnswer b,
                       ks1\<lparr>brokerCalls := brokerCalls ks1 @ [Send topic k v now]\<rparr>)))"

text \<open>
  \<^verbatim>\<open>publishMessage\<close>: the disabled branch returns at once; otherwise the \<^verbatim>\<open>catch\<close> turns
  whatever the \<^verbatim>\<open>try\<close> block throws into a returned object.
\<close>

definition publishMessage ::
  "env \<Rightarrow> broker \<Rightarrow> ('m \<Rightarrow> string outcome) \<Rightarrow> kafka_state \<Rightarrow> string \<Rightarrow> 'm \<Rightarrow> string option
     \<Rightarrow> date \<Rightarrow> publishResult outcome \<times> kafka_state" where
  "publishMessage e b stringify ks topic message key now =
     (if \<not> KAFKA_ENABLED e
        then (Returned \<lparr>success = True, disabled = Some True, sendResult = None,
                        publishError = None\<rparr>, ks)
      else (case publishMessage_try e b stringify ks topic message key now of
              (Returned result, ks1) \<Rightarrow>
                (Returned \<lparr>success = True, disabled = None, sendResult = Some result,
                           publishError = None\<rparr>, ks1)
            | (Thrown msg, ks1) \<Rightarrow>
                (Returned \<lparr>success = False, disabled = None, sendResult = None,
                           publishError = Some msg\<rparr>, ks1)))"

text \<open>
  Every journey of the store passes the schema validators. Each write of the service
  goes through \<^verbatim>\<open>save()\<close>, so a store that the service has filled is of this kind.
\<close>

definition storeValid :: "db \<Rightarrow> bool" where
  "storeValid d = (\<forall>jid j. rides d jid = Some j \<longrightarrow> validateJourney j = [])"

section \<open>Sample data\<close>

text \<open>A small store on which the theorems below are exercised.\<close>

definition sampleUser :: user where
  "sampleUser = \<lparr>userName = ''Asha'', userEmail = ''asha@example.com'', userPhone = ''5550100''\<rparr>"

definition sampleDriver :: driver where
  "sampleDriver = \<lparr>isOnline = True, isVerified = True, driverVehicleType = CAR, totalRides = 0\<rparr>"

definition sampleJourney :: journey where
  "sampleJourney =
     \<lparr>riderId = ''rider1'',
      driverId = None,
      status = REQUESTED,
      vehicleType = CAR,
      pickup = \<lparr>address = ''Mumbai Central'', coordinates = (72.8777, 19.0760)\<rparr>,
      dropoff = \<lparr>address = ''Bandra West'', coordinates = (72.8258, 19.0596)\<rparr>,
      estimatedFare = 112,
      actualFare = None,
      distance = None,
      duration = None,
      paymentMethod = ''CASH'',
      paymentStatus = PAYMENT_PENDING,
      requestedAt = 1000,
      acceptedAt = None,
      arrivedAt = None,
      startedAt = None,
      completedAt = None,
      cancelledAt = None,
      cancellationReason = None,
      cancelledBy = None\<rparr>"

definition sampleStarted :: journey where
  "sampleStarted =
     sampleJourney\<lparr>driverId := Some ''driver1'', status := STARTED, acceptedAt := Some 1500,
                    arrivedAt := Some 1800, startedAt := Some 1900\<rparr>"

definition sampleCompleted :: journey where
  "sampleCompleted =
     sampleStarted\<lparr>status := COMPLETED, completedAt := Some 3000, actualFare := Some 120,
                    distance := Some 5.2, duration := Some 18\<rparr>"

definition sampleDb :: db where
  "sampleDb =
     \<lparr>users = [''rider1'' \<mapsto> sampleUser],
      drivers = [''driver1'' \<mapsto> sampleDriver, ''driver2'' \<mapsto> sampleDriver,
                 ''driver3'' \<mapsto> sampleDriver\<lparr>isOnline := False\<rparr>,
                 ''driver4'' \<mapsto> sampleDriver\<lparr>isVerified := False\<rparr>,
                 ''driver5'' \<mapsto> sampleDriver\<lparr>driverVehicleType := BIKE\<rparr>],
      rides = [''ride1'' \<mapsto> sampleJourney,
               ''ride2'' \<mapsto> sampleStarted,
               ''ride3'' \<mapsto> sampleCompleted,
               ''ride4'' \<mapsto> sampleCompleted\<lparr>paymentStatus := PAYMENT_COMPLETED\<rparr>,
               ''ride5'' \<mapsto> sampleJourney\<lparr>driverId := Some ''driver1'', status := ACCEPTED,
                              acceptedAt := Some 1500\<rparr>]\<rparr>"

definition sampleCompletion :: completionData where
  "sampleCompletion = \<lparr>dataActualFare = 120, dataDistance = 5.2, dataDuration = 18\<rparr>"

definition sampleBody :: journeyData where
  "sampleBody =
     \<lparr>pickupAddress = ''Mumbai Central'',
      pickupCoordinates = (72.8777, 19.0760),
      dropoffAddress = ''Bandra West'',
      dropoffCoordinates = (72.8258, 19.0596),
      dataVehicleType = CAR,
      dataPaymentMethod = ''DIGITAL_WALLET'',
      numberOfPassengers = Some 2,
      specialRequests = None,
      luggage = Some False\<rparr>"

definition sampleBroker :: broker where
  "sampleBroker = \<lparr>constructorError = None, connectError = None,
                    sendAnswer = Thrown ''Broker not reachable''\<rparr>"

definition sampleKafka :: kafka_state where
  "sampleKafka = \<lparr>kafka = False, producer = False, brokerCalls = []\<rparr>"

section \<open>Persistence\<close>

lemma journey_save_valid:
  "validateJourney j = [] \<Longrightarrow> journey_save d jid j = (Inr j, d\<lparr>rides := (rides d)(jid \<mapsto> j)\<rparr>)"
  by (simp add: journey_save_def)

text \<open>The journeys of the sample store pass the schema validators.\<close>

lemma sampleJourney_valid: "validateJourney sampleJourney = []"
  by (simp add: validateJourney_def sampleJourney_def minZero_def paymentMethod_enum_def)

lemma sampleAccepted_valid:
  "validateJourney (sampleJourney\<lparr>driverId := Some ''driver1'', status := ACCEPTED,
      acceptedAt := Some 1500\<rparr>) = []"
  by (simp add: validateJourney_def sampleJourney_def minZero_def paymentMethod_enum_def)

lemma sampleCompleted_valid: "validateJourney sampleCompleted = []"
  by (simp add: validateJourney_def sampleCompleted_def sampleStarted_def sampleJourney_def
      minZero_def paymentMethod_enum_def)

section \<open>Accepting a journey\<close>

text \<open>
  Claim C2. \<^verbatim>\<open>acceptJourney\<close> throws ``Driver not found'' or ``Journey not found'' (the
  specification's NotFound) when the driver or the journey is missing, and one of the
  precondition errors (PreconditionFailed) when the driver is not online, the driver is
  not verified, the journey is not REQUESTED, or the vehicle types differ. The checks
  run in this order and the first one that fails decides the message; each violation
  by itself makes the call fail and leaves the store as it was. When every check
  passes, the journey (a stored document, which passes the schema validators) is
  saved with the accepting driver, status ACCEPTED and \<^verbatim>\<open>acceptedAt\<close> set to the
  current time.
\<close>

theorem acceptJourney_contract:
  "(drivers d did = None \<longrightarrow>
      acceptJourney d jid did now = (Inl (Error ''Driver not found''), d)) \<and>
   (drivers d did = Some drv \<and> \<not> isOnline drv \<longrightarrow>
      acceptJourney d jid did now = (Inl (Error ''Driver must be online to accept journeys''), d)) \<and>
   (drivers d did = Some drv \<and> isOnline drv \<and> \<not> isVerified drv \<longrightarrow>
      acceptJourney d jid did now = (Inl (Error ''Driver must be verified to accept journeys''), d)) \<and>
   (drivers d did = Some drv \<and> isOnline drv \<and> isVerified drv \<and> rides d jid = None \<longrightarrow>
      acceptJourney d jid did now = (Inl (Error ''Journey not found''), d)) \<and>
   (drivers d did = Some drv \<and> isOnline drv \<and> isVerified drv \<and> rides d jid = Some j \<and>
    status j \<noteq> REQUESTED \<longrightarrow>
      acceptJourney d jid did now = (Inl (Error ''Journey is no longer available''), d)) \<and>
   (drivers d did = Some drv \<and> isOnline drv \<and> isVerified drv \<and> rides d jid = Some j \<and>
    status j = REQUESTED \<and> vehicleType j \<noteq> driverVehicleType drv \<longrightarrow>
      acceptJourney d jid did now =
        (Inl (Error ''Vehicle type does not match journey request''), d)) \<and>
   (drivers d did = Some drv \<and> isOnline drv \<and> isVerified drv \<and> rides d jid = Some j \<and>
    status j = REQUESTED \<and> vehicleType j = driverVehicleType drv \<and> validateJourney j = [] \<longrightarrow>
      acceptJourney d jid did now =
        (Inr (j\<lparr>driverId := Some did, status := ACCEPTED, acceptedAt := Some now\<rparr>),
         d\<lparr>rides := (rides d)(jid \<mapsto>
              j\<lparr>driverId := Some did, status := ACCEPTED, acceptedAt := Some now\<rparr>)\<rparr>)) \<and>
   (drivers d did = None \<or> rides d jid = None \<or>
    (drivers d did = Some drv \<and> (\<not> isOnline drv \<or> \<not> isVerified drv)) \<or>
    (rides d jid = Some j \<and> status j \<noteq> REQUESTED) \<or>
    (rides d jid = Some j \<and> drivers d did = Some drv \<and> vehicleType j \<noteq> driverVehicleType drv) \<longrightarrow>
      (\<exists>msg. acceptJourney d jid did now = (Inl (Error msg), d)))"
proof -
  let ?j' = "j\<lparr>driverId := Some did, status := ACCEPTED, acceptedAt := Some now\<rparr>"
  have valid: "validateJourney ?j' = validateJourney j"
    by (simp add: validateJourney_def)
  show ?thesis
    by (auto simp: acceptJourney_def acceptJourney_read_def journey_save_valid valid
        split: option.splits)
qed

theorem acceptJourney_contract_witness:
  "acceptJourney sampleDb ''ride1'' ''nobody'' 2000 = (Inl (Error ''Driver not found''), sampleDb) \<and>
   acceptJourney sampleDb ''ride1'' ''driver3'' 2000 =
     (Inl (Error ''Driver must be online to accept journeys''), sampleDb) \<and>
   acceptJourney sampleDb ''ride1'' ''driver4'' 2000 =
     (Inl (Error ''Driver must be verified to accept journeys''), sampleDb) \<and>
   acceptJourney sampleDb ''ride9'' ''driver1'' 2000 = (Inl (Error ''Journey not found''), sampleDb) \<and>
   acceptJourney sampleDb ''ride2'' ''driver1'' 2000 =
     (Inl (Error ''Journey is no longer available''), sampleDb) \<and>
   acceptJourney sampleDb ''ride1'' ''driver5'' 2000 =
     (Inl (Error ''Vehicle type does not match journey request''), sampleDb) \<and>
   acceptJourney sampleDb ''ride1'' ''driver1'' 2000 =
     (Inr (sampleJourney\<lparr>driverId := Some ''driver1'', status := ACCEPTED, acceptedAt := Some 2000\<rparr>),
      sampleDb\<lparr>rides := (rides sampleDb)(''ride1'' \<mapsto>
        sampleJourney\<lparr>driverId := Some ''driver1'', status := ACCEPTED, acceptedAt := Some 2000\<rparr>)\<rparr>)"
proof -
  have 1: "acceptJourney sampleDb ''ride1'' ''nobody'' 2000 = (Inl (Error ''Driver not found''), sampleDb)"
    using acceptJourney_contract [of sampleDb "''nobody''" "''ride1''" 2000]
    by (simp add: sampleDb_def)
  have 2: "acceptJourney sampleDb ''ride1'' ''driver3'' 2000 =
     (Inl (Error ''Driver must be online to accept journeys''), sampleDb)"
    using acceptJourney_contract [of sampleDb "''driver3''" "''ride1''" 2000
        "sampleDriver\<lparr>isOnline := False\<rparr>"]
    by (simp add: sampleDb_def)
  have 3: "acceptJourney sampleDb ''ride1'' ''driver4'' 2000 =
     (Inl (Error ''Driver must be verified to accept journeys''), sampleDb)"
    using acceptJourney_contract [of sampleDb "''driver4''" "''ride1''" 2000
        "sampleDriver\<lparr>isVerified := False\<rparr>"]
    by (simp add: sampleDb_def sampleDriver_def)
  have 4: "acceptJourney sampleDb ''ride9'' ''driver1'' 2000 = (Inl (Error ''Journey not found''), sampleDb)"
    using acceptJourney_contract [of sampleDb "''driver1''" "''ride9''" 2000 sampleDriver]
    by (simp add: sampleDb_def sampleDriver_def)
  have 5: "acceptJourney sampleDb ''ride2'' ''driver1'' 2000 =
     (Inl (Error ''Journey is no longer available''), sampleDb)"
    using acceptJourney_contract [of sampleDb "''driver1''" "''ride2''" 2000 sampleDriver
        sampleStarted]
    by (simp add: sampleDb_def sampleDriver_def sampleStarted_def)
  have 6: "acceptJourney sampleDb ''ride1'' ''driver5'' 2000 =
     (Inl (Error ''Vehicle type does not match journey request''), sampleDb)"
    using acceptJourney_contract [of sampleDb "''driver5''" "''ride1''" 2000
        "sampleDriver\<lparr>driverVehicleType := BIKE\<rparr>" sampleJourney]
    by (simp add: sampleDb_def sampleDriver_def sampleJourney_def)
  have 7: "acceptJourney sampleDb ''ride1'' ''driver1'' 2000 =
     (Inr (sampleJourney\<lparr>driverId := Some ''driver1'', status := ACCEPTED, acceptedAt := Some 2000\<rparr>),
      sampleDb\<lparr>rides := (rides sampleDb)(''ride1'' \<mapsto>
        sampleJourney\<lparr>driverId := Some ''driver1'', status := ACCEPTED, acceptedAt := Some 2000\<rparr>)\<rparr>)"
    using acceptJourney_contract [of sampleDb "''driver1''" "''ride1''" 2000 sampleDriver sampleJourney]
      sampleJourney_valid
    by (simp add: sampleDb_def sampleDriver_def) (simp add: sampleJourney_def)
  show ?thesis using 1 2 3 4 5 6 7 by blast
qed

section \<open>The status and the transition table\<close>

lemma journey_save_rides:
  "journey_save d jid j = (r, d') \<Longrightarrow>
     d' = d \<or> (r = Inr j \<and> d' = d\<lparr>rides := (rides d)(jid \<mapsto> j)\<rparr>)"
  by (auto simp: journey_save_def split: list.splits)

lemma acceptJourney_step:
  assumes "rides d k = Some j" and "acceptJourney d jid did now = (r, d')"
  shows "\<exists>j'. rides d' k = Some j' \<and>
           (status j' = status j \<or> (status j = REQUESTED \<and> status j' = ACCEPTED))"
  using assms
  by (auto simp: acceptJourney_def acceptJourney_read_def
      split: option.splits if_splits sum.splits dest!: journey_save_rides)

lemma updateJourneyStatus_step:
  assumes "rides d k = Some j" and "updateJourneyStatus d jid did newStatus now = (r, d')"
  shows "\<exists>j'. rides d' k = Some j' \<and>
           (status j' = status j \<or> status j' \<in> set (validTransitions (status j)))"
  using assms
  by (auto simp: updateJourneyStatus_def isValidStatusTransition_def Let_def
      split: option.splits if_splits dest!: journey_save_rides)

lemma completeJourney_step:
  assumes "rides d k = Some j" and "completeJourney d jid did completion now = (r, d')"
  shows "\<exists>j'. rides d' k = Some j' \<and>
           (status j' = status j \<or> (status j = STARTED \<and> status j' = COMPLETED))"
  using assms
  by (auto simp: completeJourney_def
      split: option.splits if_splits prod.splits sum.splits dest!: journey_save_rides)

lemma cancelJourney_step:
  assumes "rides d k = Some j" and "cancelJourney d jid userId reason by_whom now = (r, d')"
  shows "\<exists>j'. rides d' k = Some j' \<and>
           (status j' = status j \<or>
            (status j \<in> {REQUESTED, ACCEPTED, ARRIVED} \<and> status j' = CANCELLED))"
  using assms
  by (auto simp: cancelJourney_def canBeCancelled_def Let_def
      split: option.splits if_splits dest!: journey_save_rides)

text \<open>
  An operation that runs from its read to its save with no other save in between:
  whatever the operation (\<^verbatim>\<open>acceptJourney\<close>, \<^verbatim>\<open>updateJourneyStatus\<close>,
  \<^verbatim>\<open>completeJourney\<close>, \<^verbatim>\<open>cancelJourney\<close>), with whatever arguments and whether it
  returns or throws, every journey of the store is still there afterwards and its
  status is either unchanged or has moved along one entry of the transition table.
  The status of a COMPLETED or CANCELLED journey does not change.
\<close>

lemma status_follows_transition_table:
  assumes "rides d jid = Some j" and "run d op now = (r, d')"
  shows "\<exists>j'. rides d' jid = Some j' \<and>
           (status j' = status j \<or>
            (status j, status j') \<in>
              {(REQUESTED, ACCEPTED), (REQUESTED, CANCELLED),
               (ACCEPTED, ARRIVED), (ACCEPTED, CANCELLED),
               (ARRIVED, STARTED), (ARRIVED, CANCELLED),
               (STARTED, COMPLETED), (STARTED, CANCELLED)}) \<and>
           (status j = COMPLETED \<or> status j = CANCELLED \<longrightarrow> status j' = status j)"
proof (cases op)
  case (AcceptJourney a b)
  with assms acceptJourney_step [of d jid j a b now r d'] show ?thesis by auto
next
  case (UpdateJourneyStatus a b s)
  with assms updateJourneyStatus_step [of d jid j a b s now r d'] show ?thesis
    by (cases "status j") auto
next
  case (CompleteJourney a b c)
  with assms completeJourney_step [of d jid j a b c now r d'] show ?thesis by auto
next
  case (CancelJourney a b c e)
  with assms cancelJourney_step [of d jid j a b c e now r d'] show ?thesis by auto
qed

text \<open>\<^verbatim>\<open>cancelJourney\<close> is its read and checks followed by the save.\<close>

lemma cancelJourney_read_save:
  "cancelJourney d jid userId reason by_whom now =
     (case cancelJourney_read d jid userId reason by_whom now of
        Inl e \<Rightarrow> (Inl e, d)
      | Inr j \<Rightarrow> journey_save d jid j)"
  by (simp add: cancelJourney_def cancelJourney_read_def Let_def split: option.split)

text \<open>
  Claim C1. The status of a journey should only change along the transition table
  REQUESTED to ACCEPTED or CANCELLED, ACCEPTED to ARRIVED or CANCELLED, ARRIVED to
  STARTED or CANCELLED, STARTED to COMPLETED or CANCELLED, and no operation should
  change the status of a COMPLETED or CANCELLED journey. Every operation reads the
  journey, checks its status and saves it in separate steps. On the sample store the
  rider cancels the REQUESTED journey while a driver accepts it, and both calls have
  read the journey before either has saved: both calls return, the stored status
  goes from REQUESTED to CANCELLED with the first save and from CANCELLED to ACCEPTED
  with the second, and ACCEPTED is not a status the table allows after CANCELLED.
\<close>

theorem interleaved_accept_reopens_cancelled_journey:
  "map_option status (rides sampleDb ''ride1'') = Some REQUESTED \<and>
   (\<exists>j1 d1 j2 d2.
      cancelJourney_acceptJourney_interleaved sampleDb ''ride1'' ''rider1''
          ''rider changed plans'' RIDER 2000 ''driver1'' 2001 =
        (Inr j1, d1, Inr j2, d2) \<and>
      status j1 = CANCELLED \<and>
      map_option status (rides d1 ''ride1'') = Some CANCELLED \<and>
      status j2 = ACCEPTED \<and>
      map_option status (rides d2 ''ride1'') = Some ACCEPTED) \<and>
   ACCEPTED \<notin> set (validTransitions CANCELLED) \<and>
   \<not> isValidStatusTransition (sampleJourney\<lparr>status := CANCELLED\<rparr>) ACCEPTED"
proof -
  let ?c = "sampleJourney\<lparr>status := CANCELLED, cancelledAt := Some 2000,
              cancellationReason := Some (trim ''rider changed plans''),
              cancelledBy := Some RIDER\<rparr>"
  let ?a = "sampleJourney\<lparr>driverId := Some ''driver1'', status := ACCEPTED,
              acceptedAt := Some 2001\<rparr>"
  have start: "rides sampleDb ''ride1'' = Some sampleJourney"
    by (simp add: sampleDb_def)
  have facts: "status sampleJourney = REQUESTED" "riderId sampleJourney = ''rider1''"
    "vehicleType sampleJourney = CAR"
    by (simp_all add: sampleJourney_def)
  have drv: "drivers sampleDb ''driver1'' = Some sampleDriver"
    by (simp add: sampleDb_def)
  have read1: "cancelJourney_read sampleDb ''ride1'' ''rider1'' ''rider changed plans'' RIDER 2000
      = Inr ?c"
    using start facts by (simp add: cancelJourney_read_def canBeCancelled_def)
  have read2: "acceptJourney_read sampleDb ''ride1'' ''driver1'' 2001 = Inr ?a"
    using start facts drv by (simp add: acceptJourney_read_def sampleDriver_def)
  have valid: "validateJourney ?c = []" "validateJourney ?a = []"
    using sampleJourney_valid by (simp_all add: validateJourney_def)
  have "cancelJourney_acceptJourney_interleaved sampleDb ''ride1'' ''rider1''
          ''rider changed plans'' RIDER 2000 ''driver1'' 2001 =
        (Inr ?c, sampleDb\<lparr>rides := (rides sampleDb)(''ride1'' \<mapsto> ?c)\<rparr>,
         Inr ?a, sampleDb\<lparr>rides := (rides sampleDb)(''ride1'' \<mapsto> ?a)\<rparr>)"
    by (simp add: cancelJourney_acceptJourney_interleaved_def read1 read2 journey_save_valid
        valid)
  moreover have "status ?c = CANCELLED" "status ?a = ACCEPTED" by simp_all
  ultimately have run: "\<exists>j1 d1 j2 d2.
      cancelJourney_acceptJourney_interleaved sampleDb ''ride1'' ''rider1''
          ''rider changed plans'' RIDER 2000 ''driver1'' 2001 =
        (Inr j1, d1, Inr j2, d2) \<and>
      status j1 = CANCELLED \<and>
      map_option status (rides d1 ''ride1'') = Some CANCELLED \<and>
      status j2 = ACCEPTED \<and>
      map_option status (rides d2 ''ride1'') = Some ACCEPTED"
    by simp
  show ?thesis
    using start facts(1) run by (simp add: isValidStatusTransition_def)
qed

section \<open>Cancelling a journey\<close>

text \<open>
  Claim C6. \<^verbatim>\<open>cancelJourney\<close> throws ``You are not authorized to cancel this journey''
  (Forbidden) unless the user is the journey's rider or its driver, and ``Journey
  cannot be cancelled in current status'' (PreconditionFailed) unless the status is
  REQUESTED, ACCEPTED or ARRIVED, so a STARTED, COMPLETED or CANCELLED journey cannot
  be cancelled; in both cases the store is left as it was. Otherwise the journey (a
  stored document, which passes the schema validators) is saved with status
  CANCELLED, \<^verbatim>\<open>cancelledAt\<close> set to the current time, the reason (trimmed by the
  schema's setter) and \<^verbatim>\<open>cancelledBy\<close>.
\<close>

theorem cancelJourney_contract:
  "(rides d jid = None \<longrightarrow>
      cancelJourney d jid userId reason by_whom now = (Inl (Error ''Journey not found''), d)) \<and>
   (rides d jid = Some j \<and> riderId j \<noteq> userId \<and> driverId j \<noteq> Some userId \<longrightarrow>
      cancelJourney d jid userId reason by_whom now =
        (Inl (Error ''You are not authorized to cancel this journey''), d)) \<and>
   (rides d jid = Some j \<and> (riderId j = userId \<or> driverId j = Some userId) \<and>
    status j \<in> {STARTED, COMPLETED, CANCELLED} \<longrightarrow>
      cancelJourney d jid userId reason by_whom now =
        (Inl (Error ''Journey cannot be cancelled in current status''), d)) \<and>
   (rides d jid = Some j \<and> (riderId j = userId \<or> driverId j = Some userId) \<and>
    status j \<in> {REQUESTED, ACCEPTED, ARRIVED} \<and> validateJourney j = [] \<longrightarrow>
      cancelJourney d jid userId reason by_whom now =
        (Inr (j\<lparr>status := CANCELLED, cancelledAt := Some now,
                cancellationReason := Some (trim reason), cancelledBy := Some by_whom\<rparr>),
         d\<lparr>rides := (rides d)(jid \<mapsto>
              j\<lparr>status := CANCELLED, cancelledAt := Some now,
                cancellationReason := Some (trim reason), cancelledBy := Some by_whom\<rparr>)\<rparr>))"
proof -
  let ?j' = "j\<lparr>status := CANCELLED, cancelledAt := Some now,
                cancellationReason := Some (trim reason), cancelledBy := Some by_whom\<rparr>"
  have valid: "validateJourney ?j' = validateJourney j"
    by (simp add: validateJourney_def)
  show ?thesis
    by (auto simp: cancelJourney_def canBeCancelled_def Let_def journey_save_valid valid
        split: option.splits)
qed

lemma trim_plain: "trim ''rider changed plans'' = ''rider changed plans''"
  by (simp add: trim_def isWhiteSpace_def)

theorem cancelJourney_contract_witness:
  "cancelJourney sampleDb ''ride1'' ''stranger'' ''rider changed plans'' RIDER 2000 =
     (Inl (Error ''You are not authorized to cancel this journey''), sampleDb) \<and>
   cancelJourney sampleDb ''ride2'' ''rider1'' ''rider changed plans'' RIDER 2000 =
     (Inl (Error ''Journey cannot be cancelled in current status''), sampleDb) \<and>
   cancelJourney sampleDb ''ride3'' ''driver1'' ''rider changed plans'' DRIVER 2000 =
     (Inl (Error ''Journey cannot be cancelled in current status''), sampleDb) \<and>
   cancelJourney sampleDb ''ride1'' ''rider1'' ''rider changed plans'' RIDER 2000 =
     (Inr (sampleJourney\<lparr>status := CANCELLED, cancelledAt := Some 2000,
             cancellationReason := Some ''rider changed plans'', cancelledBy := Some RIDER\<rparr>),
      sampleDb\<lparr>rides := (rides sampleDb)(''ride1'' \<mapsto>
         sampleJourney\<lparr>status := CANCELLED, cancelledAt := Some 2000,
             cancellationReason := Some ''rider changed plans'', cancelledBy := Some RIDER\<rparr>)\<rparr>)"
proof -
  have 1: "cancelJourney sampleDb ''ride1'' ''stranger'' ''rider changed plans'' RIDER 2000 =
     (Inl (Error ''You are not authorized to cancel this journey''), sampleDb)"
    using cancelJourney_contract [of sampleDb "''ride1''" "''stranger''" "''rider changed plans''"
        RIDER 2000 sampleJourney]
    by (simp add: sampleDb_def) (simp add: sampleJourney_def)
  have 2: "cancelJourney sampleDb ''ride2'' ''rider1'' ''rider changed plans'' RIDER 2000 =
     (Inl (Error ''Journey cannot be cancelled in current status''), sampleDb)"
    using cancelJourney_contract [of sampleDb "''ride2''" "''rider1''" "''rider changed plans''"
        RIDER 2000 sampleStarted]
    by (simp add: sampleDb_def) (simp add: sampleStarted_def sampleJourney_def)
  have 3: "cancelJourney sampleDb ''ride3'' ''driver1'' ''rider changed plans'' DRIVER 2000 =
     (Inl (Error ''Journey cannot be cancelled in current status''), sampleDb)"
    using cancelJourney_contract [of sampleDb "''ride3''" "''driver1''" "''rider changed plans''"
        DRIVER 2000 sampleCompleted]
    by (simp add: sampleDb_def) (simp add: sampleCompleted_def sampleStarted_def sampleJourney_def)
  have 4: "cancelJourney sampleDb ''ride1'' ''rider1'' ''rider changed plans'' RIDER 2000 =
     (Inr (sampleJourney\<lparr>status := CANCELLED, cancelledAt := Some 2000,
             cancellationReason := Some ''rider changed plans'', cancelledBy := Some RIDER\<rparr>),
      sampleDb\<lparr>rides := (rides sampleDb)(''ride1'' \<mapsto>
         sampleJourney\<lparr>status := CANCELLED, cancelledAt := Some 2000,
             cancellationReason := Some ''rider changed plans'', cancelledBy := Some RIDER\<rparr>)\<rparr>)"
    using cancelJourney_contract [of sampleDb "''ride1''" "''rider1''" "''rider changed plans''"
        RIDER 2000 sampleJourney] sampleJourney_valid trim_plain
    by (simp add: sampleDb_def) (simp add: sampleJourney_def)
  show ?thesis using 1 2 3 4 by blast
qed

section \<open>Status updates by the driver\<close>

text \<open>
  Claim C8. At the entry point \<^verbatim>\<open>PATCH /:journeyId/status\<close> the request schema accepts
  only ARRIVED and STARTED as the new status; any other body is rejected before the
  service runs. \<^verbatim>\<open>updateJourneyStatus\<close> throws ``You are not assigned to this journey''
  (Forbidden) when the journey's driver is not the caller or no driver is assigned,
  and ``Cannot transition from ... to ...'' (InvalidTransition) when the transition
  table forbids the new status from the current one; a jump from REQUESTED to STARTED
  is always rejected. In each of these cases the store is left as it was. On success
  the journey (a stored document, which passes the schema validators) is saved with
  the new status and \<^verbatim>\<open>arrivedAt\<close> or \<^verbatim>\<open>startedAt\<close> set to the current time.
\<close>

theorem updateJourneyStatus_contract:
  "(updateJourneyStatusSchema bodyStatus = Some newStatus \<longrightarrow>
      (newStatus = ARRIVED \<or> newStatus = STARTED) \<and>
      patchJourneyStatus d jid did bodyStatus now = updateJourneyStatus d jid did newStatus now) \<and>
   (bodyStatus \<noteq> ''ARRIVED'' \<and> bodyStatus \<noteq> ''STARTED'' \<longrightarrow>
      patchJourneyStatus d jid did bodyStatus now = (Inl (ValidationError [''status'']), d)) \<and>
   (rides d jid = None \<longrightarrow>
      updateJourneyStatus d jid did newStatus now = (Inl (Error ''Journey not found''), d)) \<and>
   (rides d jid = Some j \<and> driverId j \<noteq> Some did \<longrightarrow>
      updateJourneyStatus d jid did newStatus now =
        (Inl (Error ''You are not assigned to this journey''), d)) \<and>
   (rides d jid = Some j \<and> driverId j = Some did \<and>
    newStatus \<notin> set (validTransitions (status j)) \<longrightarrow>
      updateJourneyStatus d jid did newStatus now =
        (Inl (Error (''Cannot transition from '' @ status_name (status j) @ '' to '' @
                     status_name newStatus)), d)) \<and>
   (rides d jid = Some j \<and> status j = REQUESTED \<longrightarrow>
      (\<exists>msg. updateJourneyStatus d jid did STARTED now = (Inl (Error msg), d))) \<and>
   (rides d jid = Some j \<and> driverId j = Some did \<and> status j = ACCEPTED \<and>
    validateJourney j = [] \<longrightarrow>
      updateJourneyStatus d jid did ARRIVED now =
        (Inr (j\<lparr>status := ARRIVED, arrivedAt := Some now\<rparr>),
         d\<lparr>rides := (rides d)(jid \<mapsto> j\<lparr>status := ARRIVED, arrivedAt := Some now\<rparr>)\<rparr>)) \<and>
   (rides d jid = Some j \<and> driverId j = Some did \<and> status j = ARRIVED \<and>
    validateJourney j = [] \<longrightarrow>
      updateJourneyStatus d jid did STARTED now =
        (Inr (j\<lparr>status := STARTED, startedAt := Some now\<rparr>),
         d\<lparr>rides := (rides d)(jid \<mapsto> j\<lparr>status := STARTED, startedAt := Some now\<rparr>)\<rparr>))"
proof -
  have v1: "validateJourney (j\<lparr>status := ARRIVED, arrivedAt := Some now\<rparr>) = validateJourney j"
    by (simp add: validateJourney_def)
  have v2: "validateJourney (j\<lparr>status := STARTED, startedAt := Some now\<rparr>) = validateJourney j"
    by (simp add: validateJourney_def)
  have schema: "updateJourneyStatusSchema bodyStatus = Some newStatus \<longrightarrow>
      (newStatus = ARRIVED \<or> newStatus = STARTED) \<and>
      patchJourneyStatus d jid did bodyStatus now = updateJourneyStatus d jid did newStatus now"
    by (auto simp: patchJourneyStatus_def updateJourneyStatusSchema_def split: if_splits)
  have reject: "bodyStatus \<noteq> ''ARRIVED'' \<and> bodyStatus \<noteq> ''STARTED'' \<longrightarrow>
      patchJourneyStatus d jid did bodyStatus now = (Inl (ValidationError [''status'']), d)"
    by (simp add: patchJourneyStatus_def updateJourneyStatusSchema_def)
  have service: "(rides d jid = None \<longrightarrow>
      updateJourneyStatus d jid did newStatus now = (Inl (Error ''Journey not found''), d)) \<and>
   (rides d jid = Some j \<and> driverId j \<noteq> Some did \<longrightarrow>
      updateJourneyStatus d jid did newStatus now =
        (Inl (Error ''You are not assigned to this journey''), d)) \<and>
   (rides d jid = Some j \<and> driverId j = Some did \<and>
    newStatus \<notin> set (validTransitions (status j)) \<longrightarrow>
      updateJourneyStatus d jid did newStatus now =
        (Inl (Error (''Cannot transition from '' @ status_name (status j) @ '' to '' @
                     status_name newStatus)), d))"
    by (auto simp: updateJourneyStatus_def isValidStatusTransition_def split: option.splits)
  have jump: "rides d jid = Some j \<and> status j = REQUESTED \<longrightarrow>
      (\<exists>msg. updateJourneyStatus d jid did STARTED now = (Inl (Error msg), d))"
    by (auto simp: updateJourneyStatus_def isValidStatusTransition_def split: option.splits)
  have arrived: "rides d jid = Some j \<and> driverId j = Some did \<and> status j = ACCEPTED \<and>
    validateJourney j = [] \<longrightarrow>
      updateJourneyStatus d jid did ARRIVED now =
        (Inr (j\<lparr>status := ARRIVED, arrivedAt := Some now\<rparr>),
         d\<lparr>rides := (rides d)(jid \<mapsto> j\<lparr>status := ARRIVED, arrivedAt := Some now\<rparr>)\<rparr>)"
    by (auto simp: updateJourneyStatus_def isValidStatusTransition_def journey_save_valid v1)
  have started: "rides d jid = Some j \<and> driverId j = Some did \<and> status j = ARRIVED \<and>
    validateJourney j = [] \<longrightarrow>
      updateJourneyStatus d jid did STARTED now =
        (Inr (j\<lparr>status := STARTED, startedAt := Some now\<rparr>),
         d\<lparr>rides := (rides d)(jid \<mapsto> j\<lparr>status := STARTED, startedAt := Some now\<rparr>)\<rparr>)"
    by (auto simp: updateJourneyStatus_def isValidStatusTransition_def journey_save_valid v2)
  from schema reject service jump arrived started show ?thesis by blast
qed

theorem updateJourneyStatus_contract_witness:
  "updateJourneyStatusSchema ''ARRIVED'' = Some ARRIVED \<and>
   patchJourneyStatus sampleDb ''ride5'' ''driver1'' ''ARRIVED'' 2000 =
     updateJourneyStatus sampleDb ''ride5'' ''driver1'' ARRIVED 2000 \<and>
   patchJourneyStatus sampleDb ''ride5'' ''driver1'' ''COMPLETED'' 2000 =
     (Inl (ValidationError [''status'']), sampleDb) \<and>
   updateJourneyStatus sampleDb ''ride5'' ''driver2'' ARRIVED 2000 =
     (Inl (Error ''You are not assigned to this journey''), sampleDb) \<and>
   updateJourneyStatus sampleDb ''ride5'' ''driver1'' STARTED 2000 =
     (Inl (Error ''Cannot transition from ACCEPTED to STARTED''), sampleDb) \<and>
   (\<exists>msg. updateJourneyStatus sampleDb ''ride1'' ''driver1'' STARTED 2000 =
     (Inl (Error msg), sampleDb)) \<and>
   updateJourneyStatus sampleDb ''ride5'' ''driver1'' ARRIVED 2000 =
     (Inr (sampleJourney\<lparr>driverId := Some ''driver1'', status := ARRIVED,
             acceptedAt := Some 1500, arrivedAt := Some 2000\<rparr>),
      sampleDb\<lparr>rides := (rides sampleDb)(''ride5'' \<mapsto>
         sampleJourney\<lparr>driverId := Some ''driver1'', status := ARRIVED,
             acceptedAt := Some 1500, arrivedAt := Some 2000\<rparr>)\<rparr>)"
proof -
  let ?acc = "sampleJourney\<lparr>driverId := Some ''driver1'', status := ACCEPTED,
      acceptedAt := Some 1500\<rparr>"
  have r5: "rides sampleDb ''ride5'' = Some ?acc" by (simp add: sampleDb_def)
  have r1: "rides sampleDb ''ride1'' = Some sampleJourney" by (simp add: sampleDb_def)
  have s: "updateJourneyStatusSchema ''ARRIVED'' = Some ARRIVED"
    by (simp add: updateJourneyStatusSchema_def)
  have 1: "patchJourneyStatus sampleDb ''ride5'' ''driver1'' ''ARRIVED'' 2000 =
     updateJourneyStatus sampleDb ''ride5'' ''driver1'' ARRIVED 2000"
    using updateJourneyStatus_contract [of "''ARRIVED''" ARRIVED sampleDb "''ride5''" "''driver1''" 2000]
      s by simp
  have 2: "patchJourneyStatus sampleDb ''ride5'' ''driver1'' ''COMPLETED'' 2000 =
     (Inl (ValidationError [''status'']), sampleDb)"
    using updateJourneyStatus_contract [of "''COMPLETED''" ARRIVED sampleDb "''ride5''" "''driver1''" 2000]
    by simp
  have 3: "updateJourneyStatus sampleDb ''ride5'' ''driver2'' ARRIVED 2000 =
     (Inl (Error ''You are not assigned to this journey''), sampleDb)"
    using updateJourneyStatus_contract [of "''ARRIVED''" ARRIVED sampleDb "''ride5''" "''driver2''" 2000 ?acc]
      r5 by simp
  have 4: "updateJourneyStatus sampleDb ''ride5'' ''driver1'' STARTED 2000 =
     (Inl (Error ''Cannot transition from ACCEPTED to STARTED''), sampleDb)"
    using updateJourneyStatus_contract [of "''STARTED''" STARTED sampleDb "''ride5''" "''driver1''" 2000 ?acc]
      r5 by simp
  have 5: "\<exists>msg. updateJourneyStatus sampleDb ''ride1'' ''driver1'' STARTED 2000 =
     (Inl (Error msg), sampleDb)"
    using updateJourneyStatus_contract [of "''STARTED''" STARTED sampleDb "''ride1''" "''driver1''" 2000
        sampleJourney] r1 by (simp add: sampleJourney_def)
  have 6: "updateJourneyStatus sampleDb ''ride5'' ''driver1'' ARRIVED 2000 =
     (Inr (sampleJourney\<lparr>driverId := Some ''driver1'', status := ARRIVED,
             acceptedAt := Some 1500, arrivedAt := Some 2000\<rparr>),
      sampleDb\<lparr>rides := (rides sampleDb)(''ride5'' \<mapsto>
         sampleJourney\<lparr>driverId := Some ''driver1'', status := ARRIVED,
             acceptedAt := Some 1500, arrivedAt := Some 2000\<rparr>)\<rparr>)"
    using updateJourneyStatus_contract [of "''ARRIVED''" ARRIVED sampleDb "''ride5''" "''driver1''" 2000 ?acc]
      r5 sampleAccepted_valid by simp (simp add: sampleJourney_def)
  show ?thesis using s 1 2 3 4 5 6 by blast
qed

section \<open>Confirming a payment\<close>

lemma validateJourney_paymentStatus:
  "validateJourney (j\<lparr>paymentStatus := s\<rparr>) = validateJourney j"
  by (simp add: validateJourney_def)

lemma settlementAmount_paymentStatus:
  "settlementAmount (j\<lparr>paymentStatus := s\<rparr>) = settlementAmount j"
  by (simp add: settlementAmount_def split: option.split)

lemma confirmPayment_success:
  assumes "confirmPayment d jid rider = (Inr c, d1)"
  shows "\<exists>j. rides d1 jid = Some j \<and> riderId j = rider \<and> status j = COMPLETED \<and>
              paymentStatus j = PAYMENT_COMPLETED"
  using assms
  by (auto simp: confirmPayment_def journey_save_def
      split: option.splits if_splits list.splits)

text \<open>
  Claim C4. \<^verbatim>\<open>confirmPayment\<close> is idempotent. Called by the journey's rider on a
  COMPLETED journey whose payment is already COMPLETED it returns
  \<^verbatim>\<open>{alreadyPaid: true}\<close> and leaves the store as it was; hence after any call that
  returned, a second call for the same journey returns \<^verbatim>\<open>{alreadyPaid: true}\<close> and
  changes nothing. On a COMPLETED journey whose payment is not yet COMPLETED (a stored
  document, which passes the schema validators) the call sets \<^verbatim>\<open>paymentStatus\<close> to
  COMPLETED and returns the settlement amount: the actual fare when one is set and is
  not 0, and the estimated fare otherwise. On a journey that is not COMPLETED the call
  throws and the store is left as it was.
\<close>

theorem confirmPayment_idempotent:
  "(rides d jid = Some j \<and> riderId j = rider \<and> status j = COMPLETED \<and>
    paymentStatus j = PAYMENT_COMPLETED \<longrightarrow>
      confirmPayment d jid rider =
        (Inr \<lparr>alreadyPaid = True, journeyId = jid, amount = None,
              confirmedPaymentMethod = None\<rparr>, d)) \<and>
   (confirmPayment d jid rider = (Inr c, d1) \<longrightarrow>
      confirmPayment d1 jid rider =
        (Inr \<lparr>alreadyPaid = True, journeyId = jid, amount = None,
              confirmedPaymentMethod = None\<rparr>, d1)) \<and>
   (rides d jid = Some j \<and> riderId j = rider \<and> status j = COMPLETED \<and>
    paymentStatus j \<noteq> PAYMENT_COMPLETED \<and> validateJourney j = [] \<and>
    actualFare j = Some fare \<and> fare \<noteq> 0 \<longrightarrow>
      confirmPayment d jid rider =
        (Inr \<lparr>alreadyPaid = False, journeyId = jid, amount = Some fare,
              confirmedPaymentMethod = Some (paymentMethod j)\<rparr>,
         d\<lparr>rides := (rides d)(jid \<mapsto> j\<lparr>paymentStatus := PAYMENT_COMPLETED\<rparr>)\<rparr>)) \<and>
   (rides d jid = Some j \<and> riderId j = rider \<and> status j = COMPLETED \<and>
    paymentStatus j \<noteq> PAYMENT_COMPLETED \<and> validateJourney j = [] \<and>
    (actualFare j = None \<or> actualFare j = Some 0) \<longrightarrow>
      confirmPayment d jid rider =
        (Inr \<lparr>alreadyPaid = False, journeyId = jid, amount = Some (estimatedFare j),
              confirmedPaymentMethod = Some (paymentMethod j)\<rparr>,
         d\<lparr>rides := (rides d)(jid \<mapsto> j\<lparr>paymentStatus := PAYMENT_COMPLETED\<rparr>)\<rparr>)) \<and>
   (rides d jid = Some j \<and> status j \<noteq> COMPLETED \<longrightarrow>
      (\<exists>msg. confirmPayment d jid rider = (Inl (Error msg), d))) \<and>
   (rides d jid = Some j \<and> riderId j = rider \<and> status j \<noteq> COMPLETED \<longrightarrow>
      confirmPayment d jid rider =
        (Inl (Error ''Can only confirm payment for completed journeys''), d))"
proof -
  have paid: "confirmPayment d' jid rider =
        (Inr \<lparr>alreadyPaid = True, journeyId = jid, amount = None,
              confirmedPaymentMethod = None\<rparr>, d')"
    if "rides d' jid = Some j'" "riderId j' = rider" "status j' = COMPLETED"
       "paymentStatus j' = PAYMENT_COMPLETED" for d' j'
    using that by (simp add: confirmPayment_def)
  have again: "confirmPayment d jid rider = (Inr c, d1) \<longrightarrow>
      confirmPayment d1 jid rider =
        (Inr \<lparr>alreadyPaid = True, journeyId = jid, amount = None,
              confirmedPaymentMethod = None\<rparr>, d1)"
    using confirmPayment_success [of d jid rider c d1] paid [of d1] by blast
  have settle: "confirmPayment d jid rider =
        (Inr \<lparr>alreadyPaid = False, journeyId = jid, amount = Some (settlementAmount j),
              confirmedPaymentMethod = Some (paymentMethod j)\<rparr>,
         d\<lparr>rides := (rides d)(jid \<mapsto> j\<lparr>paymentStatus := PAYMENT_COMPLETED\<rparr>)\<rparr>)"
    if "rides d jid = Some j" "riderId j = rider" "status j = COMPLETED"
       "paymentStatus j \<noteq> PAYMENT_COMPLETED" "validateJourney j = []"
    using that
    by (simp add: confirmPayment_def journey_save_valid validateJourney_paymentStatus
        settlementAmount_paymentStatus)
  have actual: "rides d jid = Some j \<and> riderId j = rider \<and> status j = COMPLETED \<and>
    paymentStatus j \<noteq> PAYMENT_COMPLETED \<and> validateJourney j = [] \<and>
    actualFare j = Some fare \<and> fare \<noteq> 0 \<longrightarrow>
      confirmPayment d jid rider =
        (Inr \<lparr>alreadyPaid = False, journeyId = jid, amount = Some fare,
              confirmedPaymentMethod = Some (paymentMethod j)\<rparr>,
         d\<lparr>rides := (rides d)(jid \<mapsto> j\<lparr>paymentStatus := PAYMENT_COMPLETED\<rparr>)\<rparr>)"
    using settle by (auto simp: settlementAmount_def)
  have estimated: "rides d jid = Some j \<and> riderId j = rider \<and> status j = COMPLETED \<and>
    paymentStatus j \<noteq> PAYMENT_COMPLETED \<and> validateJourney j = [] \<and>
    (actualFare j = None \<or> actualFare j = Some 0) \<longrightarrow>
      confirmPayment d jid rider =
        (Inr \<lparr>alreadyPaid = False, journeyId = jid, amount = Some (estimatedFare j),
              confirmedPaymentMethod = Some (paymentMethod j)\<rparr>,
         d\<lparr>rides := (rides d)(jid \<mapsto> j\<lparr>paymentStatus := PAYMENT_COMPLETED\<rparr>)\<rparr>)"
    using settle by (auto simp: settlementAmount_def)
  have fails: "(rides d jid = Some j \<and> status j \<noteq> COMPLETED \<longrightarrow>
      (\<exists>msg. confirmPayment d jid rider = (Inl (Error msg), d))) \<and>
   (rides d jid = Some j \<and> riderId j = rider \<and> status j \<noteq> COMPLETED \<longrightarrow>
      confirmPayment d jid rider =
        (Inl (Error ''Can only confirm payment for completed journeys''), d))"
    by (simp add: confirmPayment_def)
  from paid [of d j] again actual estimated fails show ?thesis by blast
qed

lemma sample_confirm:
  "confirmPayment sampleDb ''ride3'' ''rider1'' =
     (Inr \<lparr>alreadyPaid = False, journeyId = ''ride3'', amount = Some 120,
           confirmedPaymentMethod = Some ''CASH''\<rparr>,
      sampleDb\<lparr>rides := (rides sampleDb)(''ride3'' \<mapsto>
         sampleCompleted\<lparr>paymentStatus := PAYMENT_COMPLETED\<rparr>)\<rparr>)"
proof -
  have "rides sampleDb ''ride3'' = Some sampleCompleted"
    by (simp add: sampleDb_def)
  moreover have "riderId sampleCompleted = ''rider1''" "status sampleCompleted = COMPLETED"
    "paymentStatus sampleCompleted = PAYMENT_PENDING" "settlementAmount sampleCompleted = 120"
    "paymentMethod sampleCompleted = ''CASH''"
    by (simp_all add: sampleCompleted_def sampleStarted_def sampleJourney_def
        settlementAmount_def)
  ultimately show ?thesis
    using sampleCompleted_valid
    by (simp add: confirmPayment_def journey_save_valid validateJourney_paymentStatus
        settlementAmount_paymentStatus)
qed

theorem confirmPayment_idempotent_witness:
  "confirmPayment sampleDb ''ride4'' ''rider1'' =
     (Inr \<lparr>alreadyPaid = True, journeyId = ''ride4'', amount = None,
           confirmedPaymentMethod = None\<rparr>, sampleDb) \<and>
   actualFare sampleCompleted = Some 120 \<and>
   confirmPayment sampleDb ''ride3'' ''rider1'' =
     (Inr \<lparr>alreadyPaid = False, journeyId = ''ride3'', amount = Some 120,
           confirmedPaymentMethod = Some ''CASH''\<rparr>,
      sampleDb\<lparr>rides := (rides sampleDb)(''ride3'' \<mapsto>
         sampleCompleted\<lparr>paymentStatus := PAYMENT_COMPLETED\<rparr>)\<rparr>) \<and>
   estimatedFare sampleCompleted = 112 \<and>
   fst (confirmPayment
          (sampleDb\<lparr>rides := [''ride3'' \<mapsto> sampleCompleted\<lparr>actualFare := None\<rparr>]\<rparr>)
          ''ride3'' ''rider1'') =
     Inr \<lparr>alreadyPaid = False, journeyId = ''ride3'', amount = Some 112,
          confirmedPaymentMethod = Some ''CASH''\<rparr> \<and>
   fst (confirmPayment
          (sampleDb\<lparr>rides := [''ride3'' \<mapsto> sampleCompleted\<lparr>actualFare := Some 0\<rparr>]\<rparr>)
          ''ride3'' ''rider1'') =
     Inr \<lparr>alreadyPaid = False, journeyId = ''ride3'', amount = Some 112,
          confirmedPaymentMethod = Some ''CASH''\<rparr> \<and>
   confirmPayment (snd (confirmPayment sampleDb ''ride3'' ''rider1'')) ''ride3'' ''rider1'' =
     (Inr \<lparr>alreadyPaid = True, journeyId = ''ride3'', amount = None,
           confirmedPaymentMethod = None\<rparr>, snd (confirmPayment sampleDb ''ride3'' ''rider1'')) \<and>
   confirmPayment sampleDb ''ride2'' ''rider1'' =
     (Inl (Error ''Can only confirm payment for completed journeys''), sampleDb)"
proof -
  have facts: "riderId sampleCompleted = ''rider1''" "status sampleCompleted = COMPLETED"
    "paymentStatus sampleCompleted = PAYMENT_PENDING" "actualFare sampleCompleted = Some 120"
    "estimatedFare sampleCompleted = 112" "paymentMethod sampleCompleted = ''CASH''"
    "riderId sampleStarted = ''rider1''" "status sampleStarted = STARTED"
    by (simp_all add: sampleCompleted_def sampleStarted_def sampleJourney_def)
  have valid: "validateJourney (sampleCompleted\<lparr>actualFare := x\<rparr>) = []"
    if "x = None \<or> x = Some 0" for x
    using that
    by (auto simp: validateJourney_def sampleCompleted_def sampleStarted_def sampleJourney_def
        minZero_def paymentMethod_enum_def)
  have 1: "confirmPayment sampleDb ''ride4'' ''rider1'' =
     (Inr \<lparr>alreadyPaid = True, journeyId = ''ride4'', amount = None,
           confirmedPaymentMethod = None\<rparr>, sampleDb)"
    using confirmPayment_idempotent [of sampleDb "''ride4''"
        "sampleCompleted\<lparr>paymentStatus := PAYMENT_COMPLETED\<rparr>" "''rider1''"] facts
    by (simp add: sampleDb_def)
  have 2: "confirmPayment sampleDb ''ride3'' ''rider1'' =
     (Inr \<lparr>alreadyPaid = False, journeyId = ''ride3'', amount = Some 120,
           confirmedPaymentMethod = Some ''CASH''\<rparr>,
      sampleDb\<lparr>rides := (rides sampleDb)(''ride3'' \<mapsto>
         sampleCompleted\<lparr>paymentStatus := PAYMENT_COMPLETED\<rparr>)\<rparr>)"
    using confirmPayment_idempotent [of sampleDb "''ride3''" sampleCompleted "''rider1''" _ _ 120]
      facts sampleCompleted_valid
    by (simp add: sampleDb_def)
  have 3: "fst (confirmPayment
          (sampleDb\<lparr>rides := [''ride3'' \<mapsto> sampleCompleted\<lparr>actualFare := x\<rparr>]\<rparr>)
          ''ride3'' ''rider1'') =
     Inr \<lparr>alreadyPaid = False, journeyId = ''ride3'', amount = Some 112,
          confirmedPaymentMethod = Some ''CASH''\<rparr>"
    if "x = None \<or> x = Some 0" for x
    using confirmPayment_idempotent
        [of "sampleDb\<lparr>rides := [''ride3'' \<mapsto> sampleCompleted\<lparr>actualFare := x\<rparr>]\<rparr>" "''ride3''"
          "sampleCompleted\<lparr>actualFare := x\<rparr>" "''rider1''"]
      facts valid [OF that] that
    by auto
  have 4: "confirmPayment (snd (confirmPayment sampleDb ''ride3'' ''rider1'')) ''ride3'' ''rider1'' =
     (Inr \<lparr>alreadyPaid = True, journeyId = ''ride3'', amount = None,
           confirmedPaymentMethod = None\<rparr>, snd (confirmPayment sampleDb ''ride3'' ''rider1''))"
    using confirmPayment_idempotent [of sampleDb "''ride3''" sampleCompleted "''rider1''"
        "\<lparr>alreadyPaid = False, journeyId = ''ride3'', amount = Some 120,
           confirmedPaymentMethod = Some ''CASH''\<rparr>"
        "sampleDb\<lparr>rides := (rides sampleDb)(''ride3'' \<mapsto>
         sampleCompleted\<lparr>paymentStatus := PAYMENT_COMPLETED\<rparr>)\<rparr>"] sample_confirm
    by simp
  have 5: "confirmPayment sampleDb ''ride2'' ''rider1'' =
     (Inl (Error ''Can only confirm payment for completed journeys''), sampleDb)"
    using confirmPayment_idempotent [of sampleDb "''ride2''" sampleStarted "''rider1''"] facts
    by (simp add: sampleDb_def)
  show ?thesis using 1 2 3 [of None] 3 [of "Some 0"] 4 5 facts(4,5) by blast
qed

section \<open>Completing a journey\<close>

lemma completeJourney_effect:
  assumes "rides d jid = Some j" and "driverId j = Some did" and "status j = STARTED"
    and "validateJourney j = []"
    and "0 \<le> dataActualFare c" and "0 \<le> dataDistance c" and "0 \<le> dataDuration c"
  shows "\<exists>d'. completeJourney d jid did c now =
           (Inr (j\<lparr>status := COMPLETED, completedAt := Some now,
                   actualFare := Some (dataActualFare c), distance := Some (dataDistance c),
                   duration := Some (dataDuration c), paymentStatus := PAYMENT_COMPLETED\<rparr>), d') \<and>
         rides d' jid =
           Some (j\<lparr>status := COMPLETED, completedAt := Some now,
                   actualFare := Some (dataActualFare c), distance := Some (dataDistance c),
                   duration := Some (dataDuration c), paymentStatus := PAYMENT_COMPLETED\<rparr>)"
proof -
  let ?j' = "j\<lparr>status := COMPLETED, completedAt := Some now,
                   actualFare := Some (dataActualFare c), distance := Some (dataDistance c),
                   duration := Some (dataDuration c), paymentStatus := PAYMENT_COMPLETED\<rparr>"
  have "validateJourney ?j' = []"
    using assms(4-7) by (simp add: validateJourney_def minZero_def)
  then have "journey_save d jid ?j' = (Inr ?j', d\<lparr>rides := (rides d)(jid \<mapsto> ?j')\<rparr>)"
    by (rule journey_save_valid)
  then show ?thesis
    using assms(1-3) by (auto simp: completeJourney_def split: option.splits)
qed

text \<open>
  After a journey has been completed the payment flows of the same service find it
  already paid: no QR code can be generated for it, whoever asks.
\<close>

lemma completed_journey_has_no_payment_QR:
  assumes "completeJourney d jid did c now = (Inr j', d')"
  shows "\<exists>msg. generatePaymentQR d' jid rider t = Inl (Error msg)"
proof -
  from assms have "\<exists>k. rides d' jid = Some k \<and> paymentStatus k = PAYMENT_COMPLETED"
    by (auto simp: completeJourney_def journey_save_def
        split: option.splits if_splits list.splits)
  then show ?thesis
    by (auto simp: generatePaymentQR_def)
qed

text \<open>
  Claim C3. For a journey in STARTED status with a matching driver, \<^verbatim>\<open>completeJourney\<close>
  sets the status to COMPLETED, \<^verbatim>\<open>completedAt\<close> and the three measured fields; the
  claim adds that \<^verbatim>\<open>paymentStatus\<close> stays PENDING, payment being confirmed in a
  separate step. On the sample journey, started and with its payment pending, the
  code sets the status, the time and the measured fields as claimed, but it also
  sets \<^verbatim>\<open>paymentStatus\<close> to COMPLETED, and the payment step of the same service then
  refuses the journey as already paid.
\<close>

theorem completeJourney_sets_payment_completed:
  "rides sampleDb ''ride2'' = Some sampleStarted \<and>
   status sampleStarted = STARTED \<and>
   driverId sampleStarted = Some ''driver1'' \<and>
   paymentStatus sampleStarted = PAYMENT_PENDING \<and>
   fst (completeJourney sampleDb ''ride2'' ''driver1'' sampleCompletion 5000) =
     Inr (sampleStarted\<lparr>status := COMPLETED, completedAt := Some 5000,
            actualFare := Some 120, distance := Some 5.2, duration := Some 18,
            paymentStatus := PAYMENT_COMPLETED\<rparr>) \<and>
   generatePaymentQR (snd (completeJourney sampleDb ''ride2'' ''driver1'' sampleCompletion 5000))
       ''ride2'' ''rider1'' 6000 =
     Inl (Error ''Payment has already been completed'')"
proof -
  have facts: "rides sampleDb ''ride2'' = Some sampleStarted" "status sampleStarted = STARTED"
    "driverId sampleStarted = Some ''driver1''" "paymentStatus sampleStarted = PAYMENT_PENDING"
    "riderId sampleStarted = ''rider1''"
    by (simp_all add: sampleDb_def sampleStarted_def sampleJourney_def)
  have valid: "validateJourney (sampleStarted\<lparr>status := COMPLETED, completedAt := Some 5000,
            actualFare := Some 120, distance := Some 5.2, duration := Some 18,
            paymentStatus := PAYMENT_COMPLETED\<rparr>) = []"
    by (simp add: validateJourney_def minZero_def paymentMethod_enum_def sampleStarted_def
        sampleJourney_def)
  have run: "completeJourney sampleDb ''ride2'' ''driver1'' sampleCompletion 5000 =
     (Inr (sampleStarted\<lparr>status := COMPLETED, completedAt := Some 5000,
            actualFare := Some 120, distance := Some 5.2, duration := Some 18,
            paymentStatus := PAYMENT_COMPLETED\<rparr>),
      sampleDb\<lparr>rides := (rides sampleDb)(''ride2'' \<mapsto>
            sampleStarted\<lparr>status := COMPLETED, completedAt := Some 5000,
              actualFare := Some 120, distance := Some 5.2, duration := Some 18,
              paymentStatus := PAYMENT_COMPLETED\<rparr>),
          drivers := (drivers sampleDb)(''driver1'' \<mapsto> sampleDriver\<lparr>totalRides := 1\<rparr>)\<rparr>)"
    using facts valid
    by (simp add: completeJourney_def journey_save_valid sampleCompletion_def)
       (simp add: sampleDb_def sampleDriver_def)
  have qr: "generatePaymentQR (snd (completeJourney sampleDb ''ride2'' ''driver1'' sampleCompletion 5000))
       ''ride2'' ''rider1'' 6000 = Inl (Error ''Payment has already been completed'')"
    unfolding run using facts by (simp add: generatePaymentQR_def)
  show ?thesis using facts run qr by simp
qed

section \<open>Two drivers accepting the same journey\<close>

text \<open>
  When one call to \<^verbatim>\<open>acceptJourney\<close> has returned before the next one starts, the
  second driver is told that the journey is no longer available.
\<close>

lemma acceptJourney_sequential:
  assumes "acceptJourney d jid did1 now1 = (Inr j1, d1)"
    and "drivers d1 did2 = Some drv" and "isOnline drv" and "isVerified drv"
  shows "acceptJourney d1 jid did2 now2 = (Inl (Error ''Journey is no longer available''), d1)"
proof -
  from assms(1) have "\<exists>k. rides d1 jid = Some k \<and> status k = ACCEPTED"
    by (auto simp: acceptJourney_def acceptJourney_read_def journey_save_def
        split: option.splits if_splits list.splits sum.splits)
  then show ?thesis
    using assms(2-4) by (auto simp: acceptJourney_def acceptJourney_read_def)
qed

text \<open>
  Interleaved, both calls return: each has read the journey while it was REQUESTED.
\<close>

lemma acceptJourney_interleaved_both_return:
  assumes "rides d jid = Some j" and "status j = REQUESTED" and "validateJourney j = []"
    and "drivers d did1 = Some drv1" and "isOnline drv1" and "isVerified drv1"
    and "driverVehicleType drv1 = vehicleType j"
    and "drivers d did2 = Some drv2" and "isOnline drv2" and "isVerified drv2"
    and "driverVehicleType drv2 = vehicleType j"
  shows "acceptJourney_interleaved d jid did1 now1 did2 now2 =
     (Inr (j\<lparr>driverId := Some did1, status := ACCEPTED, acceptedAt := Some now1\<rparr>),
      Inr (j\<lparr>driverId := Some did2, status := ACCEPTED, acceptedAt := Some now2\<rparr>),
      d\<lparr>rides := (rides d)(jid \<mapsto>
           j\<lparr>driverId := Some did2, status := ACCEPTED, acceptedAt := Some now2\<rparr>)\<rparr>)"
proof -
  have valid: "validateJourney (j\<lparr>driverId := Some a, status := ACCEPTED,
      acceptedAt := Some t\<rparr>) = []" for a t
    using assms(3) by (simp add: validateJourney_def)
  have read1: "acceptJourney_read d jid did1 now1 =
      Inr (j\<lparr>driverId := Some did1, status := ACCEPTED, acceptedAt := Some now1\<rparr>)"
    using assms by (simp add: acceptJourney_read_def)
  have read2: "acceptJourney_read d jid did2 now2 =
      Inr (j\<lparr>driverId := Some did2, status := ACCEPTED, acceptedAt := Some now2\<rparr>)"
    using assms by (simp add: acceptJourney_read_def)
  show ?thesis
    by (simp add: acceptJourney_interleaved_def read1 read2 journey_save_valid valid)
qed

text \<open>
  Claim C9. When two distinct drivers concurrently try to accept the same REQUESTED
  journey, exactly one should succeed and the other should be told that the journey
  is no longer available. \<^verbatim>\<open>acceptJourney\<close> reads the journey, checks its status and
  saves it in separate steps; when both calls have read the journey before either
  has saved, both calls return the accepted journey, and the store keeps the driver
  of the call that saved last.
\<close>

theorem acceptJourney_double_accept:
  "acceptJourney_interleaved sampleDb ''ride1'' ''driver1'' 2000 ''driver2'' 2001 =
     (Inr (sampleJourney\<lparr>driverId := Some ''driver1'', status := ACCEPTED,
             acceptedAt := Some 2000\<rparr>),
      Inr (sampleJourney\<lparr>driverId := Some ''driver2'', status := ACCEPTED,
             acceptedAt := Some 2001\<rparr>),
      sampleDb\<lparr>rides := (rides sampleDb)(''ride1'' \<mapsto>
         sampleJourney\<lparr>driverId := Some ''driver2'', status := ACCEPTED,
             acceptedAt := Some 2001\<rparr>)\<rparr>)"
proof -
  have valid: "validateJourney (sampleJourney\<lparr>driverId := Some did, status := ACCEPTED,
      acceptedAt := Some t\<rparr>) = []" for did t
    by (simp add: validateJourney_def sampleJourney_def minZero_def paymentMethod_enum_def)
  have read: "acceptJourney_read sampleDb ''ride1'' did t =
      Inr (sampleJourney\<lparr>driverId := Some did, status := ACCEPTED, acceptedAt := Some t\<rparr>)"
    if "did = ''driver1'' \<or> did = ''driver2''" for did t
    using that
    by (auto simp: acceptJourney_read_def sampleDb_def sampleDriver_def sampleJourney_def)
  show ?thesis
    by (simp add: acceptJourney_interleaved_def read journey_save_valid valid)
qed

section \<open>Payment methods: the request schema against the model\<close>

lemma journey_save_invalid:
  "validateJourney j \<noteq> [] \<Longrightarrow>
     journey_save d jid j = (Inl (ValidationError (validateJourney j)), d)"
  by (cases "validateJourney j") (simp_all add: journey_save_def)

lemma validateJourney_paymentMethod:
  "paymentMethod j \<notin> set paymentMethod_enum \<Longrightarrow> ''paymentMethod'' \<in> set (validateJourney j)"
  by (simp add: validateJourney_def)

lemma createJourney_rejected_method:
  assumes "dataPaymentMethod b \<notin> set paymentMethod_enum"
  shows "(users d rider = None \<longrightarrow>
            createJourney d rider b fare newId now = (Inl (Error ''Rider not found''), d)) \<and>
         (users d rider \<noteq> None \<longrightarrow>
            (\<exists>paths. createJourney d rider b fare newId now = (Inl (ValidationError paths), d) \<and>
                     ''paymentMethod'' \<in> set paths))"
proof (cases "users d rider")
  case None
  then show ?thesis by (simp add: createJourney_def)
next
  case (Some u)
  define j where "j = (\<lambda>f. \<lparr>riderId = rider, driverId = None, status = REQUESTED,
                    vehicleType = dataVehicleType b,
                    pickup = \<lparr>address = trim (pickupAddress b),
                              coordinates = pickupCoordinates b\<rparr>,
                    dropoff = \<lparr>address = trim (dropoffAddress b),
                               coordinates = dropoffCoordinates b\<rparr>,
                    estimatedFare = f,
                    actualFare = None, distance = None, duration = None,
                    paymentMethod = dataPaymentMethod b,
                    paymentStatus = PAYMENT_PENDING, requestedAt = now,
                    acceptedAt = None, arrivedAt = None, startedAt = None,
                    completedAt = None, cancelledAt = None,
                    cancellationReason = None, cancelledBy = None\<rparr>)"
  have pm: "paymentMethod (j f) = dataPaymentMethod b" for f by (simp add: j_def)
  have bad: "''paymentMethod'' \<in> set (validateJourney (j f))" for f
    using assms pm [of f] validateJourney_paymentMethod [of "j f"] by simp
  have code: "createJourney d rider b fare newId now =
      (case fare of
         Some f \<Rightarrow> journey_save d newId (j f)
       | None \<Rightarrow> (Inl (ValidationError (''estimatedFare'' # validateJourney (j 0))), d))"
    using Some by (simp add: createJourney_def j_def Let_def split: option.split)
  show ?thesis
  proof (cases fare)
    case None
    with code bad [of 0] Some show ?thesis by auto
  next
    case (Some f)
    from bad [of f] have "validateJourney (j f) \<noteq> []" by auto
    then have "journey_save d newId (j f) = (Inl (ValidationError (validateJourney (j f))), d)"
      by (rule journey_save_invalid)
    with code Some bad [of f] \<open>users d rider = Some u\<close> show ?thesis by auto
  qed
qed

text \<open>
  Claim C10. The request schema of create-journey accepts the payment methods CASH,
  DIGITAL_WALLET, DEBIT_CARD, CREDIT_CARD and UPI, while the enum of the Journey model
  is CASH, CARD, UPI, WALLET. For every body whose payment method is DIGITAL_WALLET,
  DEBIT_CARD or CREDIT_CARD the schema accepts the body exactly when it accepts it
  with CASH in its place, \<^verbatim>\<open>createJourney\<close> throws and creates no journey whatever fare
  was estimated, and for a known rider what it throws is the validation error of the
  save, which names the path \<^verbatim>\<open>paymentMethod\<close>.
\<close>

theorem createJourney_paymentMethod_mismatch:
  "set createJourneySchema_paymentMethod =
     {''CASH'', ''DIGITAL_WALLET'', ''DEBIT_CARD'', ''CREDIT_CARD'', ''UPI''} \<and>
   set paymentMethod_enum = {''CASH'', ''CARD'', ''UPI'', ''WALLET''} \<and>
   (dataPaymentMethod b \<in> {''DIGITAL_WALLET'', ''DEBIT_CARD'', ''CREDIT_CARD''} \<longrightarrow>
      createJourneySchema b = createJourneySchema (b\<lparr>dataPaymentMethod := ''CASH''\<rparr>) \<and>
      (\<exists>e. createJourney d rider b fare newId now = (Inl e, d)) \<and>
      (users d rider = Some u \<longrightarrow>
         (\<exists>paths. createJourney d rider b fare newId now = (Inl (ValidationError paths), d) \<and>
                  ''paymentMethod'' \<in> set paths)))"
proof -
  have enums: "set createJourneySchema_paymentMethod =
     {''CASH'', ''DIGITAL_WALLET'', ''DEBIT_CARD'', ''CREDIT_CARD'', ''UPI''}"
    "set paymentMethod_enum = {''CASH'', ''CARD'', ''UPI'', ''WALLET''}"
    by (simp_all add: createJourneySchema_paymentMethod_def paymentMethod_enum_def)
  {
    assume m: "dataPaymentMethod b \<in> {''DIGITAL_WALLET'', ''DEBIT_CARD'', ''CREDIT_CARD''}"
    then have notin: "dataPaymentMethod b \<notin> set paymentMethod_enum"
      by (auto simp: paymentMethod_enum_def)
    have schema: "createJourneySchema b =
        createJourneySchema (b\<lparr>dataPaymentMethod := ''CASH''\<rparr>)"
      using m by (auto simp: createJourneySchema_def createJourneySchema_paymentMethod_def)
    note rej = createJourney_rejected_method [OF notin, of d rider fare newId now]
    have fails: "\<exists>e. createJourney d rider b fare newId now = (Inl e, d)"
      using rej by (cases "users d rider") auto
    have persist: "users d rider = Some u \<longrightarrow>
         (\<exists>paths. createJourney d rider b fare newId now = (Inl (ValidationError paths), d) \<and>
                  ''paymentMethod'' \<in> set paths)"
      using rej by auto
    note schema fails persist
  }
  with enums show ?thesis by blast
qed

theorem createJourney_paymentMethod_mismatch_witness:
  "dataPaymentMethod sampleBody = ''DIGITAL_WALLET'' \<and>
   createJourneySchema sampleBody \<and>
   users sampleDb ''rider1'' = Some sampleUser \<and>
   (\<exists>paths. createJourney sampleDb ''rider1'' sampleBody (Some 112) ''ride9'' 2000 =
              (Inl (ValidationError paths), sampleDb) \<and>
            ''paymentMethod'' \<in> set paths)"
proof -
  have m: "dataPaymentMethod sampleBody = ''DIGITAL_WALLET''"
    by (simp add: sampleBody_def)
  have u: "users sampleDb ''rider1'' = Some sampleUser"
    by (simp add: sampleDb_def)
  have cash: "createJourneySchema (sampleBody\<lparr>dataPaymentMethod := ''CASH''\<rparr>)"
    by (simp add: createJourneySchema_def createJourneySchema_paymentMethod_def sampleBody_def)
  from createJourney_paymentMethod_mismatch [of sampleBody sampleDb "''rider1''" "Some 112"
      "''ride9''" 2000 sampleUser] m u cash
  show ?thesis by simp
qed

section \<open>Publishing an event\<close>

lemma publishMessage_returns:
  "\<exists>r. fst (publishMessage e b stringify ks topic message key now) = Returned r"
  by (simp add: publishMessage_def split: prod.split outcome.split)

text \<open>
  Claim C7. For every topic, message and key, \<^verbatim>\<open>publishMessage\<close> returns and never
  throws. With the broker integration disabled (\<^verbatim>\<open>KAFKA_ENABLED\<close> false) it returns
  \<^verbatim>\<open>{success: true, disabled: true}\<close> and leaves the module's state untouched, so no
  call reaches the broker. With the integration enabled, whatever is thrown while
  publishing (no producer because the client or the connection failed, a message
  that cannot be serialised, a send that the broker rejects) is returned as
  \<^verbatim>\<open>{success: false, error}\<close> with the message of the error.
\<close>

theorem publishMessage_contract:
  "(\<exists>r. fst (publishMessage e b stringify ks topic message key now) = Returned r) \<and>
   (\<not> KAFKA_ENABLED e \<longrightarrow>
      publishMessage e b stringify ks topic message key now =
        (Returned \<lparr>success = True, disabled = Some True, sendResult = None,
                   publishError = None\<rparr>, ks)) \<and>
   (KAFKA_ENABLED e \<and>
    fst (publishMessage_try e b stringify ks topic message key now) = Thrown m \<longrightarrow>
      fst (publishMessage e b stringify ks topic message key now) =
        Returned \<lparr>success = False, disabled = None, sendResult = None,
                  publishError = Some m\<rparr>) \<and>
   (KAFKA_ENABLED e \<and> producer ks \<and> stringify message = Returned v \<and> sendAnswer b = Thrown m \<longrightarrow>
      fst (publishMessage e b stringify ks topic message key now) =
        Returned \<lparr>success = False, disabled = None, sendResult = None,
                  publishError = Some m\<rparr>) \<and>
   (KAFKA_ENABLED e \<and> producer ks \<and> stringify message = Thrown m \<longrightarrow>
      fst (publishMessage e b stringify ks topic message key now) =
        Returned \<lparr>success = False, disabled = None, sendResult = None,
                  publishError = Some m\<rparr>) \<and>
   (KAFKA_ENABLED e \<and> \<not> producer ks \<and> connectError b = Some m \<longrightarrow>
      fst (publishMessage e b stringify ks topic message key now) =
        Returned \<lparr>success = False, disabled = None, sendResult = None,
                  publishError = Some ''Producer not available''\<rparr>)"
proof -
  have caught: "fst (publishMessage e b stringify ks topic message key now) =
        Returned \<lparr>success = False, disabled = None, sendResult = None,
                  publishError = Some x\<rparr>"
    if "KAFKA_ENABLED e" "fst (publishMessage_try e b stringify ks topic message key now) = Thrown x"
    for x
    using that by (auto simp: publishMessage_def split: prod.splits outcome.splits)
  have off: "\<not> KAFKA_ENABLED e \<longrightarrow>
      publishMessage e b stringify ks topic message key now =
        (Returned \<lparr>success = True, disabled = Some True, sendResult = None,
                   publishError = None\<rparr>, ks)"
    by (simp add: publishMessage_def)
  have send: "KAFKA_ENABLED e \<and> producer ks \<and> stringify message = Returned v \<and>
      sendAnswer b = Thrown m \<longrightarrow>
        fst (publishMessage_try e b stringify ks topic message key now) = Thrown m"
    by (auto simp: publishMessage_try_def getProducer_def)
  have ser: "KAFKA_ENABLED e \<and> producer ks \<and> stringify message = Thrown m \<longrightarrow>
        fst (publishMessage_try e b stringify ks topic message key now) = Thrown m"
    by (auto simp: publishMessage_try_def getProducer_def)
  have conn: "KAFKA_ENABLED e \<and> \<not> producer ks \<and> connectError b = Some m \<longrightarrow>
        fst (publishMessage_try e b stringify ks topic message key now) =
          Thrown ''Producer not available''"
    by (auto simp: publishMessage_try_def getProducer_def initKafka_def Let_def
        split: option.splits)
  from publishMessage_returns [of e b stringify ks topic message key now]
    off caught [of m] caught [of "''Producer not available''"] send ser conn
  show ?thesis by blast
qed

theorem publishMessage_contract_witness:
  "publishMessage \<lparr>KAFKA_ENABLED = False\<rparr> sampleBroker Returned sampleKafka
       ''journey-requested'' ''{}'' (Some ''ride1'') 2000 =
     (Returned \<lparr>success = True, disabled = Some True, sendResult = None,
                publishError = None\<rparr>, sampleKafka) \<and>
   fst (publishMessage \<lparr>KAFKA_ENABLED = True\<rparr> sampleBroker Returned
          (sampleKafka\<lparr>kafka := True, producer := True\<rparr>)
          ''journey-requested'' ''{}'' (Some ''ride1'') 2000) =
     Returned \<lparr>success = False, disabled = None, sendResult = None,
               publishError = Some ''Broker not reachable''\<rparr> \<and>
   fst (publishMessage \<lparr>KAFKA_ENABLED = True\<rparr>
          (sampleBroker\<lparr>connectError := Some ''ECONNREFUSED''\<rparr>) Returned sampleKafka
          ''journey-requested'' ''{}'' (Some ''ride1'') 2000) =
     Returned \<lparr>success = False, disabled = None, sendResult = None,
               publishError = Some ''Producer not available''\<rparr>"
proof -
  have 1: "publishMessage \<lparr>KAFKA_ENABLED = False\<rparr> sampleBroker Returned sampleKafka
       ''journey-requested'' ''{}'' (Some ''ride1'') 2000 =
     (Returned \<lparr>success = True, disabled = Some True, sendResult = None,
                publishError = None\<rparr>, sampleKafka)"
    using publishMessage_contract [of "\<lparr>KAFKA_ENABLED = False\<rparr>" sampleBroker Returned
        sampleKafka "''journey-requested''" "''{}''" "Some ''ride1''" 2000]
    by simp
  have 2: "fst (publishMessage \<lparr>KAFKA_ENABLED = True\<rparr> sampleBroker Returned
          (sampleKafka\<lparr>kafka := True, producer := True\<rparr>)
          ''journey-requested'' ''{}'' (Some ''ride1'') 2000) =
     Returned \<lparr>success = False, disabled = None, sendResult = None,
               publishError = Some ''Broker not reachable''\<rparr>"
    using publishMessage_contract [of "\<lparr>KAFKA_ENABLED = True\<rparr>" sampleBroker Returned
        "sampleKafka\<lparr>kafka := True, producer := True\<rparr>" "''journey-requested''" "''{}''"
        "Some ''ride1''" 2000 "''Broker not reachable''" "''{}''"]
    by (simp add: sampleBroker_def)
  have 3: "fst (publishMessage \<lparr>KAFKA_ENABLED = True\<rparr>
          (sampleBroker\<lparr>connectError := Some ''ECONNREFUSED''\<rparr>) Returned sampleKafka
          ''journey-requested'' ''{}'' (Some ''ride1'') 2000) =
     Returned \<lparr>success = False, disabled = None, sendResult = None,
               publishError = Some ''Producer not available''\<rparr>"
    using publishMessage_contract [of "\<lparr>KAFKA_ENABLED = True\<rparr>"
        "sampleBroker\<lparr>connectError := Some ''ECONNREFUSED''\<rparr>" Returned
        sampleKafka "''journey-requested''" "''{}''"
        "Some ''ride1''" 2000 "''ECONNREFUSED''"]
    by (simp add: sampleKafka_def)
  show ?thesis using 1 2 3 by blast
qed

section \<open>Stored journeys stay valid\<close>

text \<open>
  The theorems above ask of a journey that is saved again that it passes the schema
  validators. Every operation of the service keeps the store in that state, and the
  empty store is in it.
\<close>

lemma journey_save_storeValid:
  assumes "storeValid d" and "journey_save d jid j = (r, d')"
  shows "storeValid d'"
  using assms
  by (auto simp: journey_save_def storeValid_def split: list.splits if_splits)

lemma storeValid_drivers: "storeValid (d\<lparr>drivers := x\<rparr>) = storeValid d"
  by (simp add: storeValid_def)

lemma run_storeValid:
  assumes "storeValid d" and "run d op now = (r, d')"
  shows "storeValid d'"
proof (cases op)
  case (AcceptJourney a b)
  with assms show ?thesis
    by (auto simp: acceptJourney_def split: sum.splits dest: journey_save_storeValid)
next
  case (UpdateJourneyStatus a b s)
  with assms show ?thesis
    by (auto simp: updateJourneyStatus_def Let_def split: option.splits if_splits
        dest: journey_save_storeValid)
next
  case (CompleteJourney a b c)
  with assms show ?thesis
    by (auto simp: completeJourney_def storeValid_drivers
        split: option.splits if_splits prod.splits sum.splits dest: journey_save_storeValid)
next
  case (CancelJourney a b c e)
  with assms show ?thesis
    by (auto simp: cancelJourney_def Let_def split: option.splits if_splits
        dest: journey_save_storeValid)
qed

lemma createJourney_storeValid:
  assumes "storeValid d" and "createJourney d rider b fare newId now = (r, d')"
  shows "storeValid d'"
  using assms
  by (auto simp: createJourney_def Let_def split: option.splits dest: journey_save_storeValid)

lemma confirmPayment_storeValid:
  assumes "storeValid d" and "confirmPayment d jid rider = (r, d')"
  shows "storeValid d'"
  using assms
  by (auto simp: confirmPayment_def split: option.splits if_splits prod.splits sum.splits
      dest: journey_save_storeValid)

lemma storeValid_empty: "storeValid \<lparr>users = us, drivers = ds, rides = Map.empty\<rparr>"
  by (simp add: storeValid_def)

end
